theory Spec2Isabelle
  imports Complex_Main
begin

section \<open>Sentinel values and Python errors\<close>

text \<open>
  \<^verbatim>\<open>tdfTools.py\<close> reserves one number for "no value" and a looser threshold below which a
  number is treated as invalid. The same constant is used for values (floats) and for day
  numbers (ints), so it is declared at every numeric type. Python numbers are modelled as
  reals (floats, and the ints stored in snapshots) and integers (day numbers, indexes).
  Arithmetic on them is exact, except on the running totals of the function library, which
  are carried from call to call and are rounded as Python rounds a float. NaN and the
  infinities are not numbers of the model.
\<close>

definition TDF_INVALID_VALUE :: "'a::ring_1" where
  "TDF_INVALID_VALUE = - 314159"

definition TDF_SMALLEST_VALID_VALUE :: "'a::ring_1" where
  "TDF_SMALLEST_VALID_VALUE = - 1000"

datatype py_error =
  KeyError | IndexError | UnboundLocalError | AttributeError | TypeError | ValueError

section \<open>Python floats\<close>

text \<open>Python's \<^verbatim>\<open>round(x)\<close>: to the nearest integer, ties to the even neighbour.\<close>

definition py_round :: "real \<Rightarrow> int" where
  "py_round x = (let f = \<lfloor>x\<rfloor>; r = x - of_int f
                 in if r < 1 / 2 then f else if r > 1 / 2 then f + 1
                    else if even f then f else f + 1)"

text \<open>
  A Python float is an IEEE 754 binary64 number, and the result of \<^verbatim>\<open>+\<close>, \<^verbatim>\<open>-\<close> and \<^verbatim>\<open>/\<close> on
  floats is the exact result rounded to the nearest float, ties to the even significand.
  \<open>float_exponent\<close> finds the binade of a positive number, \<open>2\<^sup>e \<le> y < 2\<^sup>e\<^sup>+\<^sup>1\<close>, by halving
  or doubling, and stops at the exponent -1022 of the subnormal numbers; 2200 steps reach
  every binade of the format. \<open>fl\<close> rounds to 53 significant bits in that binade. Overflow
  to an infinity (above \<open>2\<^sup>1\<^sup>0\<^sup>2\<^sup>4\<close>) is not modelled.
\<close>

fun float_exponent :: "nat \<Rightarrow> real \<Rightarrow> int \<Rightarrow> int" where
  "float_exponent fuel y e =
     (if fuel = 0 then e
      else if y \<ge> 2 then float_exponent (fuel - 1) (y / 2) (e + 1)
      else if y < 1 \<and> e > - 1022 then float_exponent (fuel - 1) (y * 2) (e - 1)
      else e)"

declare float_exponent.simps [simp del]

definition fl :: "real \<Rightarrow> real" where
  "fl x = (if x = 0 then 0
           else (let e = float_exponent 2200 \<bar>x\<bar> 0;
                     ulp = (if e \<ge> 52 then 2 ^ nat (e - 52) else 1 / 2 ^ nat (52 - e))
                 in of_int (py_round (x / ulp)) * ulp))"

definition fadd :: "real \<Rightarrow> real \<Rightarrow> real" where
  "fadd x y = fl (x + y)"

definition fsub :: "real \<Rightarrow> real \<Rightarrow> real" where
  "fsub x y = fl (x - y)"

definition fdiv :: "real \<Rightarrow> real \<Rightarrow> real" where
  "fdiv x y = fl (x / y)"

section \<open>Sliding-window function library (tdfTimeFunctions.py)\<close>

text \<open>
  Every function object keeps a deque of dictionaries \<^verbatim>\<open>{'v': value, 'd': dayNum, 'm': timeMin}\<close>
  (CAccelerationValue adds \<^verbatim>\<open>'r'\<close>), oldest entry at index 0. The deque is a list with the
  oldest entry first.
\<close>

record entry =
  entry_v :: real
  entry_d :: int
  entry_m :: int

record rentry = entry +
  entry_r :: real

text \<open>
  The pruning loop shared by CAccelerationValue, CDeltaValue, CRateValue and
  CVolatilityValue:
  \<^verbatim>\<open>while (len(self.ValueQueue) > 0):
      if ((dayNum - self.ValueQueue[0]['d']) > self.MaxDaysInQueue): self.ValueQueue.popleft()
      else: break\<close>
\<close>

fun PopOldValues :: "int \<Rightarrow> int \<Rightarrow> 'a entry_scheme list \<Rightarrow> 'a entry_scheme list" where
  "PopOldValues MaxDaysInQueue dayNum [] = []"
| "PopOldValues MaxDaysInQueue dayNum (e # q) =
     (if dayNum - entry_d e > MaxDaysInQueue then PopOldValues MaxDaysInQueue dayNum q
      else e # q)"

text \<open>
  The same loop in CSum, CRunningAvgValue and CBollingerValue also maintains TotalValue,
  \<^verbatim>\<open>self.TotalValue = self.TotalValue - self.ValueQueue[0]['v']\<close>, a float subtraction.
\<close>

fun PopOldValuesTotal :: "int \<Rightarrow> int \<Rightarrow> entry list \<Rightarrow> real \<Rightarrow> entry list \<times> real" where
  "PopOldValuesTotal MaxDaysInQueue dayNum [] TotalValue = ([], TotalValue)"
| "PopOldValuesTotal MaxDaysInQueue dayNum (e # q) TotalValue =
     (if dayNum - entry_d e > MaxDaysInQueue
      then PopOldValuesTotal MaxDaysInQueue dayNum q (fsub TotalValue (entry_v e))
      else (e # q, TotalValue))"

text \<open>
  In CRangeValue and CThresholdValue the loop forgets the tracked extremes when the
  evicted value equals one of them. The result is (queue, MaxValue, MinValue).
\<close>

fun PopOldValuesMinMax ::
  "int \<Rightarrow> int \<Rightarrow> entry list \<Rightarrow> real \<Rightarrow> real \<Rightarrow> entry list \<times> real \<times> real" where
  "PopOldValuesMinMax MaxDaysInQueue dayNum [] MaxValue MinValue = ([], MaxValue, MinValue)"
| "PopOldValuesMinMax MaxDaysInQueue dayNum (e # q) MaxValue MinValue =
     (if dayNum - entry_d e > MaxDaysInQueue
      then (if MinValue = entry_v e \<or> MaxValue = entry_v e
            then PopOldValuesMinMax MaxDaysInQueue dayNum q TDF_INVALID_VALUE TDF_INVALID_VALUE
            else PopOldValuesMinMax MaxDaysInQueue dayNum q MaxValue MinValue)
      else (e # q, MaxValue, MinValue))"

text \<open>In CPercentChangeValue the loop forgets the tracked minimum in the same way.\<close>

fun PopOldValuesLowest :: "int \<Rightarrow> int \<Rightarrow> entry list \<Rightarrow> real \<Rightarrow> entry list \<times> real" where
  "PopOldValuesLowest MaxDaysInQueue dayNum [] lowestValue = ([], lowestValue)"
| "PopOldValuesLowest MaxDaysInQueue dayNum (e # q) lowestValue =
     (if dayNum - entry_d e > MaxDaysInQueue
      then PopOldValuesLowest MaxDaysInQueue dayNum q
             (if lowestValue = entry_v e then TDF_INVALID_VALUE else lowestValue)
      else (e # q, lowestValue))"

text \<open>
  The scan of CRateValue and CAccelerationValue for the largest absolute difference to the
  new value: \<^verbatim>\<open>deltaValue\<close> starts at -1 and is replaced by a larger \<^verbatim>\<open>currentDeltaValue\<close>.
\<close>

fun MaxAbsDelta :: "real \<Rightarrow> 'a entry_scheme list \<Rightarrow> real \<Rightarrow> real" where
  "MaxAbsDelta val [] deltaValue = deltaValue"
| "MaxAbsDelta val (e # q) deltaValue =
     (let currentDeltaValue = (if val - entry_v e < 0 then - (val - entry_v e) else val - entry_v e)
      in MaxAbsDelta val q
           (if deltaValue = - 1 \<or> currentDeltaValue > deltaValue then currentDeltaValue
            else deltaValue))"

text \<open>
  The full rescan of CRangeValue and CThresholdValue, on (MaxValue, MinValue):
  \<^verbatim>\<open>if ((self.MinValue == INVALID) or (entry['v'] <= self.MinValue)): self.MinValue = entry['v']
  if ((self.MaxValue == INVALID) or (entry['v'] >= self.MaxValue)): self.MaxValue = entry['v']\<close>
\<close>

fun RescanMinMax :: "entry list \<Rightarrow> real \<Rightarrow> real \<Rightarrow> real \<times> real" where
  "RescanMinMax [] MaxValue MinValue = (MaxValue, MinValue)"
| "RescanMinMax (e # q) MaxValue MinValue =
     RescanMinMax q
       (if MaxValue = TDF_INVALID_VALUE \<or> entry_v e \<ge> MaxValue then entry_v e else MaxValue)
       (if MinValue = TDF_INVALID_VALUE \<or> entry_v e \<le> MinValue then entry_v e else MinValue)"

text \<open>The rescan of CPercentChangeValue uses a strict comparison.\<close>

fun RescanLowest :: "entry list \<Rightarrow> real \<Rightarrow> real" where
  "RescanLowest [] lowestValue = lowestValue"
| "RescanLowest (e # q) lowestValue =
     RescanLowest q
       (if lowestValue = TDF_INVALID_VALUE \<or> entry_v e < lowestValue then entry_v e
        else lowestValue)"

text \<open>The loop of CVolatilityValue on (totalChange, prevValue).\<close>

fun TotalChange :: "entry list \<Rightarrow> real \<Rightarrow> real \<Rightarrow> real" where
  "TotalChange [] totalChange prevValue = totalChange"
| "TotalChange (e # q) totalChange prevValue =
     TotalChange q
       (if prevValue \<noteq> TDF_INVALID_VALUE
        then totalChange + (if entry_v e - prevValue < 0 then - (entry_v e - prevValue)
                            else entry_v e - prevValue)
        else totalChange)
       (entry_v e)"

text \<open>\<^verbatim>\<open>statistics.stdev\<close>: the sample standard deviation (at least two values).\<close>

definition stdev :: "real list \<Rightarrow> real" where
  "stdev xs = (let mean = sum_list xs / real (length xs)
               in sqrt (sum_list (map (\<lambda>x. (x - mean) ^ 2) xs) / (real (length xs) - 1)))"

text \<open>
  One constructor per class, holding the instance attributes in the order of the
  constructor's assignments. CRateCrossValue owns two rate objects and CIsStableValue owns
  a range object. CRangeValue holds fAbsolute, MaxDaysInQueue, ValueQueue, MaxValue,
  MinValue; CThresholdValue holds fAbove, thresholdVal, MaxDaysInQueue, ValueQueue,
  MaxValue, MinValue.
\<close>

datatype time_function =
    CGenericTimeValue "entry option" "entry option"
  | CAccelerationValue int "rentry list"
  | CDeltaValue int "entry list"
  | CSum int "entry list" real
  | CRunningAvgValue int "entry list" real
  | CRateValue int "entry list"
  | CRateCrossValue time_function time_function
  | CBollingerValue bool int "entry list" real
  | CRangeValue bool int "entry list" real real
  | CPercentChangeValue int "entry list" real
  | CThresholdValue bool real int "entry list" real real
  | CVolatilityValue int "entry list"
  | CIsStableValue time_function real

definition NewEntry :: "real \<Rightarrow> int \<Rightarrow> int \<Rightarrow> entry" where
  "NewEntry val dayNum timeMin = \<lparr>entry_v = val, entry_d = dayNum, entry_m = timeMin\<rparr>"

fun Reset :: "time_function \<Rightarrow> time_function" where
  "Reset (CGenericTimeValue PrevValue CurrentValue) = CGenericTimeValue None None"
| "Reset (CAccelerationValue n q) = CAccelerationValue n []"
| "Reset (CDeltaValue n q) = CDeltaValue n []"
| "Reset (CSum n q TotalValue) = CSum n [] 0"
| "Reset (CRunningAvgValue n q TotalValue) = CRunningAvgValue n [] 0"
| "Reset (CRateValue n q) = CRateValue n []"
| "Reset (CRateCrossValue shortRate longRate) = CRateCrossValue (Reset shortRate) (Reset longRate)"
| "Reset (CBollingerValue fUpperBollinger n q TotalValue) = CBollingerValue fUpperBollinger n [] 0"
| "Reset (CRangeValue fAbsolute n q MaxValue MinValue) =
     CRangeValue fAbsolute n [] TDF_INVALID_VALUE TDF_INVALID_VALUE"
| "Reset (CPercentChangeValue n q lowestValue) = CPercentChangeValue n [] TDF_INVALID_VALUE"
| "Reset (CThresholdValue fAbove thresholdVal n q MaxValue MinValue) =
     CThresholdValue fAbove thresholdVal n [] TDF_INVALID_VALUE TDF_INVALID_VALUE"
| "Reset (CVolatilityValue n q) = CVolatilityValue n []"
| "Reset (CIsStableValue RangeVar threshold) = CIsStableValue (Reset RangeVar) threshold"

text \<open>
  \<^verbatim>\<open>ComputeNewValue(value, dayNum, timeMin)\<close> returns the output and leaves the object in a
  new state; the model returns both. Python's \<^verbatim>\<open>True\<close>/\<^verbatim>\<open>False\<close> results (CBollingerValue)
  are the numbers 1 and 0, as they are in every comparison the callers make.
\<close>

fun ComputeNewValue :: "time_function \<Rightarrow> real \<Rightarrow> int \<Rightarrow> int \<Rightarrow> real \<times> time_function" where
  "ComputeNewValue (CGenericTimeValue PrevValue CurrentValue) val dayNum timeMin =
     (let newValInfo = NewEntry val dayNum timeMin
      in (case CurrentValue of
            None \<Rightarrow> TDF_INVALID_VALUE
          | Some prev \<Rightarrow>
              (let deltaValue = entry_v newValInfo - entry_v prev;
                   deltaDays = entry_d newValInfo - entry_d prev
               in if deltaDays \<le> 0 then TDF_INVALID_VALUE else deltaValue / real_of_int deltaDays),
          CGenericTimeValue CurrentValue (Some newValInfo)))"
| "ComputeNewValue (CAccelerationValue n q) val dayNum timeMin =
     (let q1 = PopOldValues n dayNum q;
          deltaValue = MaxAbsDelta val q1 (- 1);
          newRate = (if length q1 \<ge> 1
                     then (let deltaDays = dayNum - entry_d (hd q1)
                           in if deltaDays > 0
                              then (let r = deltaValue / real_of_int deltaDays
                                    in if r < 0 then - r else r)
                              else 0)
                     else 0);
          q2 = q1 @ [\<lparr>entry_v = val, entry_d = dayNum, entry_m = timeMin, entry_r = newRate\<rparr>]
      in (if length q2 \<le> 2 then TDF_INVALID_VALUE
          else (let deltaDays = dayNum - entry_d (hd q2);
                    deltaRate = newRate - entry_r (hd q2)
                in if deltaDays \<le> 0 then TDF_INVALID_VALUE
                   else (let acceleration = deltaRate / real_of_int deltaDays
                         in if acceleration < 0 then - acceleration else acceleration)),
          CAccelerationValue n q2))"
| "ComputeNewValue (CDeltaValue n q) val dayNum timeMin =
     (let q2 = PopOldValues n dayNum q @ [NewEntry val dayNum timeMin]
      in (if length q2 \<le> 1 then TDF_INVALID_VALUE
          else (let oldestEntry = hd q2
                in if dayNum - entry_d oldestEntry < 1 then TDF_INVALID_VALUE
                   else val - entry_v oldestEntry),
          CDeltaValue n q2))"
| "ComputeNewValue (CSum n q TotalValue) val dayNum timeMin =
     (case PopOldValuesTotal n dayNum q TotalValue of
        (q1, total1) \<Rightarrow>
          (let q2 = q1 @ [NewEntry val dayNum timeMin];
               total2 = fadd total1 val
           in (if length q2 > 0 then total2 else TDF_INVALID_VALUE, CSum n q2 total2)))"
| "ComputeNewValue (CRunningAvgValue n q TotalValue) val dayNum timeMin =
     (case PopOldValuesTotal n dayNum q TotalValue of
        (q1, total1) \<Rightarrow>
          (let q2 = q1 @ [NewEntry val dayNum timeMin];
               total2 = fadd total1 val
           in (if length q2 > 0 then fdiv total2 (real (length q2)) else TDF_INVALID_VALUE,
               CRunningAvgValue n q2 total2)))"
| "ComputeNewValue (CRateValue n q) val dayNum timeMin =
     (let q2 = PopOldValues n dayNum q @ [NewEntry val dayNum timeMin]
      in (if length q2 \<le> 1 then TDF_INVALID_VALUE
          else (let deltaValue = MaxAbsDelta val q2 (- 1);
                    deltaDays = dayNum - entry_d (hd q2)
                in if deltaDays \<le> 0 then TDF_INVALID_VALUE
                   else deltaValue / real_of_int deltaDays),
          CRateValue n q2))"
| "ComputeNewValue (CRateCrossValue shortRate longRate) val dayNum timeMin =
     (case ComputeNewValue shortRate val dayNum timeMin of
        (shortRateVal, shortRate') \<Rightarrow>
          (case ComputeNewValue longRate val dayNum timeMin of
             (longRateVal, longRate') \<Rightarrow>
               (if shortRateVal = TDF_INVALID_VALUE \<or> longRateVal = TDF_INVALID_VALUE
                then TDF_INVALID_VALUE
                else if shortRateVal \<ge> (11 / 10) * longRateVal then 1 else 0,
                CRateCrossValue shortRate' longRate')))"
| "ComputeNewValue (CBollingerValue fUpperBollinger n q TotalValue) val dayNum timeMin =
     (case PopOldValuesTotal n dayNum q TotalValue of
        (q1, total1) \<Rightarrow>
          (let q2 = q1 @ [NewEntry val dayNum timeMin];
               total2 = fadd total1 val;
               numValues = length q2
           in (if numValues < 2 then TDF_INVALID_VALUE
               else (let avgValue = fdiv total2 (real numValues);
                         listStdDev = stdev (map entry_v q2)
                     in if fUpperBollinger
                        then (if val \<ge> fadd avgValue listStdDev then 1 else 0)
                        else (if val \<le> fsub avgValue listStdDev then 1 else 0)),
               CBollingerValue fUpperBollinger n q2 total2)))"
| "ComputeNewValue (CRangeValue fAbsolute n q MaxValue MinValue) val dayNum timeMin =
     (case PopOldValuesMinMax n dayNum q MaxValue MinValue of
        (q1, max1, min1) \<Rightarrow>
          (let q2 = q1 @ [NewEntry val dayNum timeMin]
           in (case (if max1 = TDF_INVALID_VALUE \<or> min1 = TDF_INVALID_VALUE
                     then RescanMinMax q2 TDF_INVALID_VALUE TDF_INVALID_VALUE
                     else (if max1 = TDF_INVALID_VALUE \<or> val \<ge> max1 then val else max1,
                           if min1 = TDF_INVALID_VALUE \<or> val \<le> min1 then val else min1)) of
                 (max2, min2) \<Rightarrow>
                   (if min2 = TDF_INVALID_VALUE \<or> max2 = TDF_INVALID_VALUE \<or> length q2 \<le> 1
                    then TDF_INVALID_VALUE
                    else (let result = max2 - min2
                          in if \<not> fAbsolute \<and> min2 \<noteq> 0
                             then (if min2 = 0 then 0 else result / min2)
                             else result),
                    CRangeValue fAbsolute n q2 max2 min2))))"
| "ComputeNewValue (CPercentChangeValue n q lowestValue) val dayNum timeMin =
     (case PopOldValuesLowest n dayNum q lowestValue of
        (q1, lowest1) \<Rightarrow>
          (let q2 = q1 @ [NewEntry val dayNum timeMin];
               lowest2 = (if lowest1 = TDF_INVALID_VALUE then RescanLowest q2 lowest1 else lowest1)
           in (if lowest2 = TDF_INVALID_VALUE \<or> length q2 < 2 then TDF_INVALID_VALUE
               else if lowest2 = 0 then 0
               else (val - lowest2) / lowest2,
               CPercentChangeValue n q2 lowest2)))"
| "ComputeNewValue (CThresholdValue fAbove thresholdVal n q MaxValue MinValue) val dayNum timeMin =
     (case PopOldValuesMinMax n dayNum q MaxValue MinValue of
        (q1, max1, min1) \<Rightarrow>
          (let q2 = q1 @ [NewEntry val dayNum timeMin]
           in (case (if max1 = TDF_INVALID_VALUE \<or> min1 = TDF_INVALID_VALUE
                     then RescanMinMax q2 TDF_INVALID_VALUE TDF_INVALID_VALUE
                     else (if max1 = TDF_INVALID_VALUE \<or> val \<ge> max1 then val else max1,
                           if min1 = TDF_INVALID_VALUE \<or> val \<le> min1 then val else min1)) of
                 (max2, min2) \<Rightarrow>
                   (if \<not> fAbove \<and> thresholdVal > 0 \<and> max2 \<le> thresholdVal then 1
                    else if fAbove \<and> thresholdVal > 0 \<and> min2 \<ge> thresholdVal then 1
                    else 0,
                    CThresholdValue fAbove thresholdVal n q2 max2 min2))))"
| "ComputeNewValue (CVolatilityValue n q) val dayNum timeMin =
     (let q2 = PopOldValues n dayNum q @ [NewEntry val dayNum timeMin]
      in (TotalChange q2 0 TDF_INVALID_VALUE, CVolatilityValue n q2))"
| "ComputeNewValue (CIsStableValue RangeVar threshold) val dayNum timeMin =
     (case ComputeNewValue RangeVar val dayNum timeMin of
        (valRange, RangeVar') \<Rightarrow>
          (if valRange = TDF_INVALID_VALUE then TDF_INVALID_VALUE
           else if valRange > threshold then 0 else 1,
           CIsStableValue RangeVar' threshold))"

text \<open>
  The predicates used to state the eviction property: the object is one of the windowed
  classes (CGenericTimeValue keeps no window), every retained observation is more than the
  window size older than the new day, and an object is fed a sequence of observations.
\<close>

fun is_windowed :: "time_function \<Rightarrow> bool" where
  "is_windowed (CGenericTimeValue PrevValue CurrentValue) = False"
| "is_windowed (CRateCrossValue shortRate longRate) = (is_windowed shortRate \<and> is_windowed longRate)"
| "is_windowed (CIsStableValue RangeVar threshold) = is_windowed RangeVar"
| "is_windowed _ = True"

definition older_than :: "int \<Rightarrow> int \<Rightarrow> 'a entry_scheme list \<Rightarrow> bool" where
  "older_than n dayNum q = (\<forall>e \<in> set q. dayNum - entry_d e > n)"

fun all_retained_older :: "time_function \<Rightarrow> int \<Rightarrow> bool" where
  "all_retained_older (CGenericTimeValue PrevValue CurrentValue) dayNum = True"
| "all_retained_older (CAccelerationValue n q) dayNum = older_than n dayNum q"
| "all_retained_older (CDeltaValue n q) dayNum = older_than n dayNum q"
| "all_retained_older (CSum n q t) dayNum = older_than n dayNum q"
| "all_retained_older (CRunningAvgValue n q t) dayNum = older_than n dayNum q"
| "all_retained_older (CRateValue n q) dayNum = older_than n dayNum q"
| "all_retained_older (CRateCrossValue shortRate longRate) dayNum =
     (all_retained_older shortRate dayNum \<and> all_retained_older longRate dayNum)"
| "all_retained_older (CBollingerValue u n q t) dayNum = older_than n dayNum q"
| "all_retained_older (CRangeValue a n q mx mn) dayNum = older_than n dayNum q"
| "all_retained_older (CPercentChangeValue n q l) dayNum = older_than n dayNum q"
| "all_retained_older (CThresholdValue a th n q mx mn) dayNum = older_than n dayNum q"
| "all_retained_older (CVolatilityValue n q) dayNum = older_than n dayNum q"
| "all_retained_older (CIsStableValue RangeVar threshold) dayNum = all_retained_older RangeVar dayNum"

fun feed :: "time_function \<Rightarrow> (real \<times> int \<times> int) list \<Rightarrow> time_function" where
  "feed f [] = f"
| "feed f ((val, dayNum, timeMin) # obs) = feed (snd (ComputeNewValue f val dayNum timeMin)) obs"

text \<open>
  The classes whose output is the running total: CSum returns TotalValue and
  CRunningAvgValue returns TotalValue divided by the number of retained entries.
  (CBollingerValue keeps a total as well, and returns the sentinel when fewer than two
  entries are retained.)
\<close>

fun outputs_running_total :: "time_function \<Rightarrow> bool" where
  "outputs_running_total (CSum n q t) = True"
| "outputs_running_total (CRunningAvgValue n q t) = True"
| "outputs_running_total (CRateCrossValue shortRate longRate) =
     (outputs_running_total shortRate \<or> outputs_running_total longRate)"
| "outputs_running_total (CIsStableValue RangeVar threshold) = outputs_running_total RangeVar"
| "outputs_running_total _ = False"

text \<open>
  What the tracked extremes of a reachable object satisfy: a tracked minimum is the
  sentinel or the value of a retained entry.
\<close>

definition minmax_ok :: "entry list \<Rightarrow> real \<Rightarrow> real \<Rightarrow> bool" where
  "minmax_ok q mx mn = (mx = TDF_INVALID_VALUE \<or> mn = TDF_INVALID_VALUE \<or> mn \<in> entry_v ` set q)"

definition lowest_ok :: "entry list \<Rightarrow> real \<Rightarrow> bool" where
  "lowest_ok q l = (l = TDF_INVALID_VALUE \<or> l \<in> entry_v ` set q)"

fun tracked_ok :: "time_function \<Rightarrow> bool" where
  "tracked_ok (CRangeValue a n q mx mn) = minmax_ok q mx mn"
| "tracked_ok (CThresholdValue a th n q mx mn) = minmax_ok q mx mn"
| "tracked_ok (CPercentChangeValue n q l) = lowest_ok q l"
| "tracked_ok (CRateCrossValue shortRate longRate) = (tracked_ok shortRate \<and> tracked_ok longRate)"
| "tracked_ok (CIsStableValue RangeVar threshold) = tracked_ok RangeVar"
| "tracked_ok _ = True"

section \<open>CTimeSeries (tdfTimeFunctions.py), the trailing window behind the baseline\<close>

text \<open>
  The queue entries of CTimeSeries are dictionaries created as
  \<^verbatim>\<open>{'v': value, 'd': timeInDays, 'm': timeMin}\<close>; they are maps from key to number, so
  that a read of a key that was never stored is a KeyError of the model as it is of the
  code. All attributes are Python numbers.
\<close>

record CTimeSeries =
  ValueQueue :: "(string \<rightharpoonup> real) list"
  maxHistoryInDays :: real
  lowestValue :: real
  MostRecentValue :: real
  MostRecentDay :: real
  MostRecentHour :: real
  MostRecentMin :: real
  OldestDay :: real
  OldestHour :: real
  OldestMin :: real

definition CTimeSeries_init :: "real \<Rightarrow> CTimeSeries" where
  "CTimeSeries_init maxHistory =
     \<lparr>ValueQueue = [], maxHistoryInDays = maxHistory, lowestValue = - 1,
      MostRecentValue = - 1, MostRecentDay = - 1, MostRecentHour = - 1, MostRecentMin = - 1,
      OldestDay = - 1, OldestHour = - 1, OldestMin = - 1\<rparr>"

text \<open>Python's \<^verbatim>\<open>round(x, 2)\<close>.\<close>

definition py_round2 :: "real \<Rightarrow> real" where
  "py_round2 x = of_int (py_round (x * 100)) / 100"

text \<open>
  The pruning loop of AddNewValue,
  \<^verbatim>\<open>while (deltaDays > self.maxHistoryInDays)\<close>, on the object and fNeedToFindLowestValue.
  \<^verbatim>\<open>self.ValueQueue[0]\<close> on an empty deque is an IndexError.
\<close>

function TrimQueue :: "CTimeSeries \<Rightarrow> real \<Rightarrow> bool \<Rightarrow> py_error + (CTimeSeries \<times> bool)" where
  "TrimQueue self timeInDays fNeedToFindLowestValue =
     (if timeInDays - OldestDay self > maxHistoryInDays self
      then (case ValueQueue self of
              [] \<Rightarrow> Inl IndexError
            | removedValue # rest \<Rightarrow>
                (case removedValue ''v'' of
                   None \<Rightarrow> Inl KeyError
                 | Some rv \<Rightarrow>
                     (case rest of
                        [] \<Rightarrow> Inl IndexError
                      | oldestValue # _ \<Rightarrow>
                          (case oldestValue ''d'' of
                             None \<Rightarrow> Inl KeyError
                           | Some od \<Rightarrow>
                               (case oldestValue ''h'' of
                                  None \<Rightarrow> Inl KeyError
                                | Some oh \<Rightarrow>
                                    (case oldestValue ''m'' of
                                       None \<Rightarrow> Inl KeyError
                                     | Some om \<Rightarrow>
                                         TrimQueue
                                           (self\<lparr>ValueQueue := rest, OldestDay := od,
                                                 OldestHour := oh, OldestMin := om\<rparr>)
                                           timeInDays
                                           (py_round2 rv = py_round2 (lowestValue self)
                                            \<or> fNeedToFindLowestValue)))))))
      else Inr (self, fNeedToFindLowestValue))"
  by pat_completeness auto
termination
  by (relation "measure (\<lambda>(self, timeInDays, fNeed). length (ValueQueue self))") auto

text \<open>The rescan \<^verbatim>\<open>for elem in self.ValueQueue\<close> for the lowest value, from -1.\<close>

fun FindLowestValue :: "(string \<rightharpoonup> real) list \<Rightarrow> real \<Rightarrow> py_error + real" where
  "FindLowestValue [] lowest = Inr lowest"
| "FindLowestValue (elem # q) lowest =
     (case elem ''v'' of
        None \<Rightarrow> Inl KeyError
      | Some ev \<Rightarrow>
          (let currentVal = py_round2 ev
           in FindLowestValue q (if lowest = - 1 \<or> currentVal < lowest then currentVal else lowest)))"

definition AddNewValue :: "CTimeSeries \<Rightarrow> real \<Rightarrow> real \<Rightarrow> real \<Rightarrow> py_error + CTimeSeries" where
  "AddNewValue self val timeInDays timeMin =
     (let newQueueEntry = [''v'' \<mapsto> val, ''d'' \<mapsto> timeInDays, ''m'' \<mapsto> timeMin];
          s1 = self\<lparr>ValueQueue := ValueQueue self @ [newQueueEntry],
                    MostRecentValue := py_round2 val,
                    MostRecentDay := timeInDays,
                    MostRecentMin := timeMin\<rparr>;
          s2 = (if lowestValue s1 = - 1 \<or> val < lowestValue s1 then s1\<lparr>lowestValue := val\<rparr> else s1)
      in if OldestDay s2 = - 1 \<and> OldestMin s2 = - 1
         then Inr (s2\<lparr>OldestDay := timeInDays, OldestMin := timeMin\<rparr>)
         else (case TrimQueue s2 timeInDays False of
                 Inl err \<Rightarrow> Inl err
               | Inr (s3, fNeedToFindLowestValue) \<Rightarrow>
                   (if fNeedToFindLowestValue
                    then (case FindLowestValue (ValueQueue s3) (- 1) of
                            Inl err \<Rightarrow> Inl err
                          | Inr low \<Rightarrow> Inr (s3\<lparr>lowestValue := low\<rparr>))
                    else Inr s3)))"

text \<open>GetLowestValue returns Python's None (here \<open>None\<close>) before any value was added.\<close>

definition GetLowestValue :: "CTimeSeries \<Rightarrow> real option" where
  "GetLowestValue self = (if MostRecentValue self = - 1 then None else Some (lowestValue self))"

text \<open>A sequence of AddNewValue calls; the first exception ends it.\<close>

fun AddNewValues :: "CTimeSeries \<Rightarrow> (real \<times> real \<times> real) list \<Rightarrow> py_error + CTimeSeries" where
  "AddNewValues self [] = Inr self"
| "AddNewValues self ((val, timeInDays, timeMin) # rest) =
     (case AddNewValue self val timeInDays timeMin of
        Inl err \<Rightarrow> Inl err
      | Inr self' \<Rightarrow> AddNewValues self' rest)"

section \<open>The compiled timeline and GetNamedValueFromTimeline (tdfTools.py)\<close>

text \<open>
  A snapshot (\<^verbatim>\<open>timelineEntry['data']\<close>) is a dictionary from variable name to a Python
  value: a number, None (the "none" carry-forward action) or text. A compiled timeline
  entry holds TimeDays, TID and data; its eventNodeList is emptied by the reverse pass.
\<close>

datatype pyval = Num real | PyNone | Str string

type_synonym snapshot = "string \<rightharpoonup> pyval"

record timeline_entry =
  TimeDays :: int
  TID :: int
  data :: snapshot

definition VARIABLE_RANGE_SIMPLE :: int where
  "VARIABLE_RANGE_SIMPLE = - 1"

definition VARIABLE_RANGE_LAST_MATCH :: int where
  "VARIABLE_RANGE_LAST_MATCH = 1"

text \<open>Python list indexing: a negative index counts from the end, out of range raises.\<close>

definition py_index :: "'a list \<Rightarrow> int \<Rightarrow> py_error + 'a" where
  "py_index xs i =
     (if 0 \<le> i \<and> i < int (length xs) then Inr (xs ! nat i)
      else if i < 0 \<and> - int (length xs) \<le> i then Inr (xs ! nat (int (length xs) + i))
      else Inl IndexError)"

text \<open>\<^verbatim>\<open>self.LastTimeLineIndex = len(self.CompiledTimeline) - 1\<close>, set by CompileTimelineImpl.\<close>

definition LastTimeLineIndex :: "timeline_entry list \<Rightarrow> int" where
  "LastTimeLineIndex CompiledTimeline = int (length CompiledTimeline) - 1"

text \<open>
  The four loops that move the cursor to the start of the day range. Each returns the value
  of \<^verbatim>\<open>currentTimeLineIndex\<close> when its loop ends.

  Forward search, range starts at or after the current day:
  \<^verbatim>\<open>while (currentTimeLineIndex < self.LastTimeLineIndex):
      if (timelineEntry['TimeDays'] >= firstDayInRange): break
      currentTimeLineIndex = currentTimeLineIndex + 1\<close>
\<close>

function SeekForwardFuture :: "timeline_entry list \<Rightarrow> int \<Rightarrow> int \<Rightarrow> py_error + int" where
  "SeekForwardFuture ctl firstDayInRange currentTimeLineIndex =
     (if currentTimeLineIndex < LastTimeLineIndex ctl
      then (case py_index ctl currentTimeLineIndex of
              Inl err \<Rightarrow> Inl err
            | Inr timelineEntry \<Rightarrow>
                (if TimeDays timelineEntry \<ge> firstDayInRange then Inr currentTimeLineIndex
                 else SeekForwardFuture ctl firstDayInRange (currentTimeLineIndex + 1)))
      else Inr currentTimeLineIndex)"
  by pat_completeness auto
termination
  by (relation "measure (\<lambda>(ctl, firstDayInRange, i). nat (LastTimeLineIndex ctl - i))") auto

text \<open>
  Forward search, range starts at or before the current day:
  \<^verbatim>\<open>while (testIndex >= 0):
      if (timelineEntry['TimeDays'] < firstDayInRange): break
      currentTimeLineIndex = testIndex
      testIndex = testIndex - 1\<close>
\<close>

function SeekForwardPast :: "timeline_entry list \<Rightarrow> int \<Rightarrow> int \<Rightarrow> int \<Rightarrow> py_error + int" where
  "SeekForwardPast ctl firstDayInRange currentTimeLineIndex testIndex =
     (if testIndex \<ge> 0
      then (case py_index ctl testIndex of
              Inl err \<Rightarrow> Inl err
            | Inr timelineEntry \<Rightarrow>
                (if TimeDays timelineEntry < firstDayInRange then Inr currentTimeLineIndex
                 else SeekForwardPast ctl firstDayInRange testIndex (testIndex - 1)))
      else Inr currentTimeLineIndex)"
  by pat_completeness auto
termination
  by (relation "measure (\<lambda>(ctl, firstDayInRange, i, t). nat (t + 1))") auto

text \<open>
  Backward search, range starts after the current day:
  \<^verbatim>\<open>while (testIndex < self.LastTimeLineIndex):
      if (timelineEntry['TimeDays'] > firstDayInRange): break
      currentTimeLineIndex = testIndex
      testIndex = testIndex + 1\<close>
\<close>

function SeekBackwardFuture :: "timeline_entry list \<Rightarrow> int \<Rightarrow> int \<Rightarrow> int \<Rightarrow> py_error + int" where
  "SeekBackwardFuture ctl firstDayInRange currentTimeLineIndex testIndex =
     (if testIndex < LastTimeLineIndex ctl
      then (case py_index ctl testIndex of
              Inl err \<Rightarrow> Inl err
            | Inr timelineEntry \<Rightarrow>
                (if TimeDays timelineEntry > firstDayInRange then Inr currentTimeLineIndex
                 else SeekBackwardFuture ctl firstDayInRange testIndex (testIndex + 1)))
      else Inr currentTimeLineIndex)"
  by pat_completeness auto
termination
  by (relation "measure (\<lambda>(ctl, firstDayInRange, i, t). nat (LastTimeLineIndex ctl - t))") auto

text \<open>
  Backward search, range starts before the current day:
  \<^verbatim>\<open>while (currentTimeLineIndex >= 0):
      if (timelineEntry['TimeDays'] <= firstDayInRange): break
      currentTimeLineIndex = currentTimeLineIndex - 1\<close>
\<close>

function SeekBackwardPast :: "timeline_entry list \<Rightarrow> int \<Rightarrow> int \<Rightarrow> py_error + int" where
  "SeekBackwardPast ctl firstDayInRange currentTimeLineIndex =
     (if currentTimeLineIndex \<ge> 0
      then (case py_index ctl currentTimeLineIndex of
              Inl err \<Rightarrow> Inl err
            | Inr timelineEntry \<Rightarrow>
                (if TimeDays timelineEntry \<le> firstDayInRange then Inr currentTimeLineIndex
                 else SeekBackwardPast ctl firstDayInRange (currentTimeLineIndex - 1)))
      else Inr currentTimeLineIndex)"
  by pat_completeness auto
termination
  by (relation "measure (\<lambda>(ctl, firstDayInRange, i). nat (i + 1))") auto

text \<open>
  The two search loops. They carry \<^verbatim>\<open>result\<close>, which every examined snapshot that has the
  name overwrites, and return (fFoundIt, result, matchingRangeDay).
  \<^verbatim>\<open>TDF_INVALID_VALUE != result\<close> is true of None and of text.
\<close>

definition differs_from_invalid :: "pyval \<Rightarrow> bool" where
  "differs_from_invalid x = (case x of Num r \<Rightarrow> TDF_INVALID_VALUE \<noteq> r | _ \<Rightarrow> True)"

function SearchBackward ::
  "timeline_entry list \<Rightarrow> string \<Rightarrow> int \<Rightarrow> pyval \<Rightarrow> int \<Rightarrow> py_error + (bool \<times> pyval \<times> int)" where
  "SearchBackward ctl valueName lastDayNumInRange result currentTimeLineIndex =
     (if currentTimeLineIndex \<ge> 0
      then (case py_index ctl currentTimeLineIndex of
              Inl err \<Rightarrow> Inl err
            | Inr timelineEntry \<Rightarrow>
                (let currentDayNum = TimeDays timelineEntry
                 in if currentDayNum < lastDayNumInRange then Inr (False, result, - 1)
                    else (case data timelineEntry valueName of
                            None \<Rightarrow>
                              SearchBackward ctl valueName lastDayNumInRange result
                                (currentTimeLineIndex - 1)
                          | Some found \<Rightarrow>
                              (if differs_from_invalid found then Inr (True, found, currentDayNum)
                               else SearchBackward ctl valueName lastDayNumInRange found
                                      (currentTimeLineIndex - 1)))))
      else Inr (False, result, - 1))"
  by pat_completeness auto
termination
  by (relation "measure (\<lambda>(ctl, valueName, lastDay, result, i). nat (i + 1))") auto

function SearchForward ::
  "timeline_entry list \<Rightarrow> string \<Rightarrow> int \<Rightarrow> pyval \<Rightarrow> int \<Rightarrow> py_error + (bool \<times> pyval \<times> int)" where
  "SearchForward ctl valueName lastDayNumInRange result currentTimeLineIndex =
     (if currentTimeLineIndex \<le> LastTimeLineIndex ctl
      then (case py_index ctl currentTimeLineIndex of
              Inl err \<Rightarrow> Inl err
            | Inr timelineEntry \<Rightarrow>
                (let currentDayNum = TimeDays timelineEntry
                 in if currentDayNum > lastDayNumInRange then Inr (False, result, - 1)
                    else (case data timelineEntry valueName of
                            None \<Rightarrow>
                              SearchForward ctl valueName lastDayNumInRange result
                                (currentTimeLineIndex + 1)
                          | Some found \<Rightarrow>
                              (if differs_from_invalid found then Inr (True, found, currentDayNum)
                               else SearchForward ctl valueName lastDayNumInRange found
                                      (currentTimeLineIndex + 1)))))
      else Inr (False, result, - 1))"
  by pat_completeness auto
termination
  by (relation "measure (\<lambda>(ctl, valueName, lastDay, result, i). nat (LastTimeLineIndex ctl + 1 - i))")
     auto

text \<open>
  The first block of GetNamedValueFromTimeline, entered when the offsets are (0,0) or a
  function object is given. It either returns to the caller (\<open>Return\<close>) or falls through
  to the range search with the current \<^verbatim>\<open>result\<close> (\<open>FallThrough\<close>). An ordering comparison of
  None or text with a number is a TypeError.
\<close>

datatype 'a flow = Return 'a | FallThrough pyval

definition SameDayLookup ::
  "timeline_entry \<Rightarrow> string \<Rightarrow> int \<Rightarrow> int \<Rightarrow> time_function option \<Rightarrow>
   py_error + ((bool \<times> pyval \<times> int) flow \<times> time_function option)" where
  "SameDayLookup timelineEntry valueName startOffsetRange endOffsetRange functionObject =
     (let currentDayNum = TimeDays timelineEntry
      in if (startOffsetRange = endOffsetRange \<and> endOffsetRange = 0) \<or> functionObject \<noteq> None
         then (case data timelineEntry valueName of
                 None \<Rightarrow> Inr (Return (False, Num TDF_INVALID_VALUE, - 1), functionObject)
               | Some (Num result) \<Rightarrow>
                   (if result < TDF_SMALLEST_VALID_VALUE
                    then Inr (Return (False, Num TDF_INVALID_VALUE, - 1), functionObject)
                    else (case functionObject of
                            None \<Rightarrow> Inr (Return (True, Num result, currentDayNum), None)
                          | Some f \<Rightarrow>
                              (case ComputeNewValue f result currentDayNum 0 of
                                 (result', f') \<Rightarrow>
                                   (if result' < TDF_SMALLEST_VALID_VALUE
                                    then Inr (Return (False, Num TDF_INVALID_VALUE, - 1), Some f')
                                    else Inr (FallThrough (Num result'), Some f')))))
               | Some _ \<Rightarrow> Inl TypeError)
         else Inr (FallThrough (Num TDF_INVALID_VALUE), functionObject))"

text \<open>
  The cursor positioning: an if/elif chain of four branches with no else, so
  \<^verbatim>\<open>currentTimeLineIndex\<close> stays unassigned (\<open>None\<close>) when no branch is taken.
\<close>

definition PositionCursor ::
  "timeline_entry list \<Rightarrow> bool \<Rightarrow> int \<Rightarrow> int \<Rightarrow> int \<Rightarrow> py_error + int option" where
  "PositionCursor ctl fSearchForward firstDayInRange currentDayNum timeLineIndex =
     (if fSearchForward \<and> firstDayInRange \<ge> currentDayNum
      then map_sum id Some (SeekForwardFuture ctl firstDayInRange timeLineIndex)
      else if fSearchForward \<and> firstDayInRange \<le> currentDayNum
      then map_sum id Some (SeekForwardPast ctl firstDayInRange timeLineIndex timeLineIndex)
      else if \<not> fSearchForward \<and> firstDayInRange > currentDayNum
      then map_sum id Some (SeekBackwardFuture ctl firstDayInRange timeLineIndex timeLineIndex)
      else if \<not> fSearchForward \<and> firstDayInRange < currentDayNum
      then map_sum id Some (SeekBackwardPast ctl firstDayInRange timeLineIndex)
      else Inr None)"

definition GetNamedValueFromTimeline ::
  "timeline_entry list \<Rightarrow> string \<Rightarrow> int \<Rightarrow> int \<Rightarrow> int \<Rightarrow> time_function option \<Rightarrow> int \<Rightarrow> int \<Rightarrow>
   py_error + ((bool \<times> pyval \<times> int) \<times> time_function option)" where
  "GetNamedValueFromTimeline ctl valueName startOffsetRange endOffsetRange rangeOption
       functionObject timeLineIndex prevUsedRangeDay =
     (case py_index ctl timeLineIndex of
        Inl err \<Rightarrow> Inl err
      | Inr timelineEntry \<Rightarrow>
          (case SameDayLookup timelineEntry valueName startOffsetRange endOffsetRange functionObject of
             Inl err \<Rightarrow> Inl err
           | Inr (Return r, functionObject') \<Rightarrow> Inr (r, functionObject')
           | Inr (FallThrough result, functionObject') \<Rightarrow>
               (let currentDayNum = TimeDays timelineEntry;
                    referenceDay = (if rangeOption = VARIABLE_RANGE_LAST_MATCH then prevUsedRangeDay
                                    else currentDayNum);
                    firstDayInRange = referenceDay + startOffsetRange;
                    lastDayNumInRange = referenceDay + endOffsetRange;
                    fSearchForward = (\<not> firstDayInRange > lastDayNumInRange)
                in (case PositionCursor ctl fSearchForward firstDayInRange currentDayNum timeLineIndex of
                      Inl err \<Rightarrow> Inl err
                    | Inr None \<Rightarrow> Inl UnboundLocalError
                    | Inr (Some currentTimeLineIndex) \<Rightarrow>
                        map_sum id (\<lambda>r. (r, functionObject'))
                          (if \<not> fSearchForward
                           then SearchBackward ctl valueName lastDayNumInRange result currentTimeLineIndex
                           else SearchForward ctl valueName lastDayNumInRange result
                                  currentTimeLineIndex)))))"

section \<open>The variable table and CheckIfCurrentTimeMeetsCriteria (tdfTools.py)\<close>

text \<open>
  \<^verbatim>\<open>g_LabValueInfo\<close> (tdfMedicineValues.py) maps a variable name to its descriptor. The functions
  below take the table as an argument; \<open>g_LabValueInfo_rows\<close> holds the rows of the source
  table for the variables that the examples use, copied field by field.
\<close>

datatype data_type =
    TDF_DATA_TYPE_INT
  | TDF_DATA_TYPE_FLOAT
  | TDF_DATA_TYPE_BOOL
  | TDF_DATA_TYPE_FUTURE_EVENT_CLASS
  | TDF_DATA_TYPE_STRING_LIST
  | TDF_DATA_TYPE_UNKNOWN

record lab_info =
  minVal :: real
  maxVal :: real
  dataType :: data_type
  numFutureDaysNeeded :: int
  FuturePredictedValue :: string
  ActionAfterEachTimePeriod :: string
  Calculated :: bool
  VariableDependencies :: string

definition g_LabValueInfo_rows :: "string \<rightharpoonup> lab_info" where
  "g_LabValueInfo_rows =
     [''Cr'' \<mapsto> \<lparr>minVal = 1 / 2, maxVal = 6, dataType = TDF_DATA_TYPE_FLOAT,
                 numFutureDaysNeeded = 0, FuturePredictedValue = [],
                 ActionAfterEachTimePeriod = [], Calculated = False,
                 VariableDependencies = []\<rparr>,
      ''GFR'' \<mapsto> \<lparr>minVal = 5, maxVal = 60, dataType = TDF_DATA_TYPE_FLOAT,
                 numFutureDaysNeeded = 0, FuturePredictedValue = [],
                 ActionAfterEachTimePeriod = [], Calculated = True,
                 VariableDependencies = ''WtKg;AgeInYrs;Cr;IsMale''\<rparr>,
      ''BaselineCr'' \<mapsto> \<lparr>minVal = 3 / 10, maxVal = 8, dataType = TDF_DATA_TYPE_FLOAT,
                 numFutureDaysNeeded = 0, FuturePredictedValue = [],
                 ActionAfterEachTimePeriod = [], Calculated = False,
                 VariableDependencies = ''Cr''\<rparr>,
      ''InAKI'' \<mapsto> \<lparr>minVal = 0, maxVal = 1, dataType = TDF_DATA_TYPE_BOOL,
                 numFutureDaysNeeded = 0, FuturePredictedValue = [],
                 ActionAfterEachTimePeriod = [], Calculated = False,
                 VariableDependencies = ''Cr;BaselineCr''\<rparr>,
      ''InHospital'' \<mapsto> \<lparr>minVal = 0, maxVal = 1, dataType = TDF_DATA_TYPE_BOOL,
                 numFutureDaysNeeded = 0, FuturePredictedValue = [],
                 ActionAfterEachTimePeriod = [], Calculated = False,
                 VariableDependencies = []\<rparr>]"

text \<open>Python's \<^verbatim>\<open>int(x)\<close> on a number truncates toward zero.\<close>

definition py_int :: "real \<Rightarrow> int" where
  "py_int x = (if x \<ge> 0 then \<lfloor>x\<rfloor> else \<lceil>x\<rceil>)"

text \<open>
  The body of the loop over the properties, for one property: \<open>Inr True\<close> when the loop
  goes on to the next property, \<open>Inr False\<close> when the function returns False. The target
  value and the relation are read from their lists (an IndexError when the list is too
  short) only after the snapshot value has been found present and valid; the target is
  taken as the number that \<^verbatim>\<open>float(propertyValueList[propNum])\<close> yields.
\<close>

definition CheckOneCriterion ::
  "(string \<rightharpoonup> lab_info) \<Rightarrow> snapshot \<Rightarrow> py_error + string \<Rightarrow> string \<Rightarrow> py_error + real \<Rightarrow>
   py_error + bool" where
  "CheckOneCriterion labValueInfo latestValues relationLookup valueName targetLookup =
     (case latestValues valueName of
        None \<Rightarrow> Inr False
      | Some (Num actualVal) \<Rightarrow>
          (if actualVal = TDF_INVALID_VALUE \<or> actualVal \<le> TDF_SMALLEST_VALID_VALUE then Inr False
           else (case targetLookup of
                   Inl err \<Rightarrow> Inl err
                 | Inr targetVal \<Rightarrow>
           (case relationLookup of
                   Inl err \<Rightarrow> Inl err
                 | Inr relationName \<Rightarrow>
           (case labValueInfo valueName of
                   None \<Rightarrow> Inr False
                 | Some labInfo \<Rightarrow>
                     (let dataTypeName = dataType labInfo;
                          isFloat = (dataTypeName = TDF_DATA_TYPE_FLOAT);
                          isInt = (dataTypeName = TDF_DATA_TYPE_INT
                                   \<or> dataTypeName = TDF_DATA_TYPE_FUTURE_EVENT_CLASS);
                          isBool = (dataTypeName = TDF_DATA_TYPE_BOOL)
                      in if relationName = ''.EQ.''
                         then (if isFloat \<and> actualVal \<noteq> targetVal then Inr False
                               else if isInt \<and> py_int actualVal \<noteq> py_int targetVal then Inr False
                               else if isBool \<and> py_int actualVal \<noteq> py_int targetVal then Inr False
                               else Inr True)
                         else if relationName = ''.NEQ.''
                         then (if isFloat \<and> actualVal = targetVal then Inr False
                               else if isInt \<and> py_int actualVal = py_int targetVal then Inr False
                               else Inr True)
                         else if relationName = ''.LT.''
                         then (if isFloat \<and> actualVal \<ge> targetVal then Inr False
                               else if isInt \<and> py_int actualVal \<ge> py_int targetVal then Inr False
                               else Inr True)
                         else if relationName = ''.LTE.''
                         then (if isFloat \<and> actualVal > targetVal then Inr False
                               else if isInt \<and> py_int actualVal > py_int targetVal then Inr False
                               else Inr True)
                         else if relationName = ''.GT.''
                         then (if isFloat \<and> actualVal \<le> targetVal then Inr False
                               else if isInt \<and> py_int actualVal \<le> py_int targetVal then Inr False
                               else Inr True)
                         else if relationName = ''.GTE.''
                         then (if isFloat \<and> actualVal < targetVal then Inr False
                               else if isInt \<and> py_int actualVal < py_int targetVal then Inr False
                               else Inr True)
                         else Inr False)))))
      | Some _ \<Rightarrow> Inl TypeError)"

text \<open>\<^verbatim>\<open>for propNum in range(numProperties)\<close>, with numProperties the length of the name list.\<close>

function CheckCriteriaFrom ::
  "(string \<rightharpoonup> lab_info) \<Rightarrow> string list \<Rightarrow> string list \<Rightarrow> real list \<Rightarrow> snapshot \<Rightarrow> nat \<Rightarrow>
   py_error + bool" where
  "CheckCriteriaFrom labValueInfo propertyRelationList propertyNameList propertyValueList
       latestValues propNum =
     (if propNum < length propertyNameList
      then (case CheckOneCriterion labValueInfo latestValues
                   (py_index propertyRelationList (int propNum))
                   (propertyNameList ! propNum)
                   (py_index propertyValueList (int propNum)) of
              Inl err \<Rightarrow> Inl err
            | Inr False \<Rightarrow> Inr False
            | Inr True \<Rightarrow>
                CheckCriteriaFrom labValueInfo propertyRelationList propertyNameList
                  propertyValueList latestValues (Suc propNum))
      else Inr True)"
  by pat_completeness auto
termination
  by (relation "measure (\<lambda>(li, rels, names, vals, snap, propNum). length names - propNum)") auto

definition CheckIfCurrentTimeMeetsCriteria ::
  "(string \<rightharpoonup> lab_info) \<Rightarrow> string list \<Rightarrow> string list \<Rightarrow> real list \<Rightarrow> timeline_entry \<Rightarrow>
   py_error + bool" where
  "CheckIfCurrentTimeMeetsCriteria labValueInfo propertyRelationList propertyNameList
       propertyValueList timelineEntry =
     CheckCriteriaFrom labValueInfo propertyRelationList propertyNameList propertyValueList
       (data timelineEntry) 0"

text \<open>
  The relational test as the specification words it: one of the six relations between the
  snapshot value and the target, compared as numbers for the Float kind and as integers
  for the Integer, FutureEventCategory and Boolean kinds.
\<close>

definition relation_holds :: "string \<Rightarrow> real \<Rightarrow> real \<Rightarrow> bool" where
  "relation_holds relationName a b =
     (if relationName = ''.EQ.'' then a = b
      else if relationName = ''.NEQ.'' then a \<noteq> b
      else if relationName = ''.LT.'' then a < b
      else if relationName = ''.LTE.'' then a \<le> b
      else if relationName = ''.GT.'' then a > b
      else if relationName = ''.GTE.'' then a \<ge> b
      else False)"

definition relational_test_spec :: "data_type \<Rightarrow> string \<Rightarrow> real \<Rightarrow> real \<Rightarrow> bool" where
  "relational_test_spec kind relationName actualVal targetVal =
     (if kind = TDF_DATA_TYPE_FLOAT then relation_holds relationName actualVal targetVal
      else relation_holds relationName (of_int (py_int actualVal)) (of_int (py_int targetVal)))"

section \<open>RecordTimeMilestonesOnForwardPass (tdfTools.py)\<close>

text \<open>The eight stage-onset dates of the reader, set to the sentinel by CompileTimelineImpl.\<close>

record milestones =
  StartCKD5Date :: int
  StartCKD4Date :: int
  StartCKD3bDate :: int
  StartCKD3aDate :: int
  StartMELD40Date :: int
  StartMELD30Date :: int
  StartMELD20Date :: int
  StartMELD10Date :: int

definition milestones_init :: milestones where
  "milestones_init =
     \<lparr>StartCKD5Date = TDF_INVALID_VALUE, StartCKD4Date = TDF_INVALID_VALUE,
      StartCKD3bDate = TDF_INVALID_VALUE, StartCKD3aDate = TDF_INVALID_VALUE,
      StartMELD40Date = TDF_INVALID_VALUE, StartMELD30Date = TDF_INVALID_VALUE,
      StartMELD20Date = TDF_INVALID_VALUE, StartMELD10Date = TDF_INVALID_VALUE\<rparr>"

text \<open>\<^verbatim>\<open>if (self.StartXDate < 0): self.StartXDate = currentDayNum\<close>\<close>

definition SetIfUnset :: "int \<Rightarrow> int \<Rightarrow> int" where
  "SetIfUnset startDate currentDayNum = (if startDate < 0 then currentDayNum else startDate)"

definition RecordGFRMilestones :: "milestones \<Rightarrow> real \<Rightarrow> int \<Rightarrow> milestones" where
  "RecordGFRMilestones self currentGFR currentDayNum =
     (if currentGFR < TDF_SMALLEST_VALID_VALUE then self
      else if currentGFR < 15
      then self\<lparr>StartCKD5Date := SetIfUnset (StartCKD5Date self) currentDayNum,
                StartCKD4Date := SetIfUnset (StartCKD4Date self) currentDayNum,
                StartCKD3bDate := SetIfUnset (StartCKD3bDate self) currentDayNum,
                StartCKD3aDate := SetIfUnset (StartCKD3aDate self) currentDayNum\<rparr>
      else if 15 \<le> currentGFR \<and> currentGFR < 30
      then self\<lparr>StartCKD4Date := SetIfUnset (StartCKD4Date self) currentDayNum,
                StartCKD3bDate := SetIfUnset (StartCKD3bDate self) currentDayNum,
                StartCKD3aDate := SetIfUnset (StartCKD3aDate self) currentDayNum,
                StartCKD5Date := TDF_INVALID_VALUE\<rparr>
      else if 30 \<le> currentGFR \<and> currentGFR < 45
      then self\<lparr>StartCKD3bDate := SetIfUnset (StartCKD3bDate self) currentDayNum,
                StartCKD3aDate := SetIfUnset (StartCKD3aDate self) currentDayNum,
                StartCKD4Date := TDF_INVALID_VALUE,
                StartCKD5Date := TDF_INVALID_VALUE\<rparr>
      else if 45 \<le> currentGFR \<and> currentGFR < 60
      then self\<lparr>StartCKD3aDate := SetIfUnset (StartCKD3aDate self) currentDayNum,
                StartCKD3bDate := TDF_INVALID_VALUE,
                StartCKD4Date := TDF_INVALID_VALUE,
                StartCKD5Date := TDF_INVALID_VALUE\<rparr>
      else if currentGFR \<ge> 60
      then self\<lparr>StartCKD3aDate := TDF_INVALID_VALUE,
                StartCKD3bDate := TDF_INVALID_VALUE,
                StartCKD4Date := TDF_INVALID_VALUE,
                StartCKD5Date := TDF_INVALID_VALUE\<rparr>
      else self)"

definition RecordMELDMilestones :: "milestones \<Rightarrow> real \<Rightarrow> int \<Rightarrow> milestones" where
  "RecordMELDMilestones self currentMELD currentDayNum =
     (if currentMELD < TDF_SMALLEST_VALID_VALUE then self
      else if currentMELD \<ge> 40
      then self\<lparr>StartMELD40Date := SetIfUnset (StartMELD40Date self) currentDayNum,
                StartMELD30Date := SetIfUnset (StartMELD30Date self) currentDayNum,
                StartMELD20Date := SetIfUnset (StartMELD20Date self) currentDayNum,
                StartMELD10Date := SetIfUnset (StartMELD10Date self) currentDayNum\<rparr>
      else if 30 \<le> currentMELD \<and> currentMELD < 40
      then self\<lparr>StartMELD30Date := SetIfUnset (StartMELD30Date self) currentDayNum,
                StartMELD20Date := SetIfUnset (StartMELD20Date self) currentDayNum,
                StartMELD10Date := SetIfUnset (StartMELD10Date self) currentDayNum,
                StartMELD40Date := TDF_INVALID_VALUE\<rparr>
      else if 20 \<le> currentMELD \<and> currentMELD < 30
      then self\<lparr>StartMELD20Date := SetIfUnset (StartMELD20Date self) currentDayNum,
                StartMELD10Date := SetIfUnset (StartMELD10Date self) currentDayNum,
                StartMELD30Date := TDF_INVALID_VALUE,
                StartMELD40Date := TDF_INVALID_VALUE\<rparr>
      else if 10 \<le> currentMELD \<and> currentMELD < 20
      then self\<lparr>StartMELD10Date := SetIfUnset (StartMELD10Date self) currentDayNum,
                StartMELD20Date := TDF_INVALID_VALUE,
                StartMELD30Date := TDF_INVALID_VALUE,
                StartMELD40Date := TDF_INVALID_VALUE\<rparr>
      else if currentMELD < 10
      then self\<lparr>StartMELD10Date := TDF_INVALID_VALUE,
                StartMELD20Date := TDF_INVALID_VALUE,
                StartMELD30Date := TDF_INVALID_VALUE,
                StartMELD40Date := TDF_INVALID_VALUE\<rparr>
      else self)"

text \<open>
  RecordTimeMilestonesOnForwardPass reads GFR and then MELD from the snapshot when the
  key is present; comparing None or text with a number raises.
\<close>

definition RecordTimeMilestonesOnForwardPass ::
  "milestones \<Rightarrow> snapshot \<Rightarrow> int \<Rightarrow> py_error + milestones" where
  "RecordTimeMilestonesOnForwardPass self timeLineData currentDayNum =
     (case (case timeLineData ''GFR'' of
              None \<Rightarrow> Inr self
            | Some (Num currentGFR) \<Rightarrow> Inr (RecordGFRMilestones self currentGFR currentDayNum)
            | Some _ \<Rightarrow> Inl TypeError) of
        Inl err \<Rightarrow> Inl err
      | Inr self1 \<Rightarrow>
          (case timeLineData ''MELD'' of
             None \<Rightarrow> Inr self1
           | Some (Num currentMELD) \<Rightarrow> Inr (RecordMELDMilestones self1 currentMELD currentDayNum)
           | Some _ \<Rightarrow> Inl TypeError))"

text \<open>
  The second forward sweep of CompileTimelineImpl:
  \<^verbatim>\<open>for timeLineIndex in range(self.LastTimeLineIndex + 1):
      self.RecordTimeMilestonesOnForwardPass(timelineEntry['data'], timelineEntry['TimeDays'])\<close>
\<close>

fun SecondForwardPass :: "milestones \<Rightarrow> timeline_entry list \<Rightarrow> py_error + milestones" where
  "SecondForwardPass self [] = Inr self"
| "SecondForwardPass self (timelineEntry # rest) =
     (case RecordTimeMilestonesOnForwardPass self (data timelineEntry) (TimeDays timelineEntry) of
        Inl err \<Rightarrow> Inl err
      | Inr self' \<Rightarrow> SecondForwardPass self' rest)"

text \<open>
  The onset date as the specification words it: the first day from which the stage
  criterion is met continuously to the end of the record, over the TimePoints that carry a
  valid score; "no onset" (the sentinel) when the last valid score does not meet it.
\<close>

definition valid_scores :: "string \<Rightarrow> timeline_entry list \<Rightarrow> (int \<times> real) list" where
  "valid_scores name ctl =
     concat (map (\<lambda>e. case data e name of
                         Some (Num x) \<Rightarrow> (if x < TDF_SMALLEST_VALID_VALUE then [] else [(TimeDays e, x)])
                       | _ \<Rightarrow> []) ctl)"

definition onset_spec :: "(real \<Rightarrow> bool) \<Rightarrow> (int \<times> real) list \<Rightarrow> int" where
  "onset_spec criterion scores =
     (case rev (takeWhile (\<lambda>(day, x). criterion x) (rev scores)) of
        [] \<Rightarrow> TDF_INVALID_VALUE
      | (day, x) # run \<Rightarrow> day)"

section \<open>The reverse pass: baseline correction and the acute-state flag (tdfTools.py)\<close>

text \<open>
  \<^verbatim>\<open>try: x = d[key]  except Exception: x = TDF_INVALID_VALUE\<close>, and the ordering comparison of a
  snapshot value with a number, which raises for None and for text.
\<close>

definition get_or_invalid :: "snapshot \<Rightarrow> string \<Rightarrow> pyval" where
  "get_or_invalid d key = (case d key of None \<Rightarrow> Num TDF_INVALID_VALUE | Some x \<Rightarrow> x)"

definition as_number :: "pyval \<Rightarrow> py_error + real" where
  "as_number x = (case x of Num r \<Rightarrow> Inr r | _ \<Rightarrow> Inl TypeError)"

text \<open>
  CalculateGFR. \<^verbatim>\<open>math.pow\<close> with a non-integer exponent raises ValueError on a base that
  is not positive; on a positive base it is \<open>powr\<close>.
\<close>

definition CalculateGFR :: "pyval \<Rightarrow> pyval \<Rightarrow> pyval \<Rightarrow> py_error + real" where
  "CalculateGFR currrentCr patientAge fIsMale =
     (case as_number currrentCr of
        Inl err \<Rightarrow> Inl err
      | Inr cr \<Rightarrow>
          (if \<not> cr > TDF_SMALLEST_VALID_VALUE then Inr TDF_INVALID_VALUE
           else (case as_number patientAge of
                   Inl err \<Rightarrow> Inl err
                 | Inr age \<Rightarrow>
                     (if \<not> age > TDF_SMALLEST_VALID_VALUE then Inr TDF_INVALID_VALUE
                      else (case as_number fIsMale of
                              Inl err \<Rightarrow> Inl err
                            | Inr male \<Rightarrow>
                                (let kappa = (if male > 0 then 9 / 10 else 7 / 10);
                                     alpha = (if male > 0 then - (302 / 1000) else - (241 / 1000));
                                     creatKappaRatio = cr / kappa
                                 in if creatKappaRatio \<le> 0 then Inl ValueError
                                    else (let e1 = (if creatKappaRatio < 1
                                                    then 142 * (creatKappaRatio powr alpha) else 142);
                                              e2 = (if creatKappaRatio > 1
                                                    then e1 * (creatKappaRatio powr (- (1209 / 1000)))
                                                    else e1);
                                              e3 = e2 * ((9938 / 10000) powr age)
                                          in Inr (if male \<le> 0 then e3 * (1018 / 1000) else e3))))))))"

text \<open>
  The first three blocks of CalculateAllDerivedValuesREVERSEPass, on the snapshot of one
  TimePoint and the reader attribute FutureBaselineCr. The blocks that follow them in the
  source assign only to the keys Future_..., Start...Date, EventualDeathDate and
  LengthOfStay, and are not part of this function.
\<close>

definition ReverseBaselineCr :: "string list \<Rightarrow> real \<Rightarrow> snapshot \<Rightarrow> py_error + (real \<times> snapshot)" where
  "ReverseBaselineCr allValueVarNameList FutureBaselineCr reversePassTimeLineData =
     (if ''BaselineCr'' \<in> set allValueVarNameList
      then (let baselineCr = get_or_invalid reversePassTimeLineData ''BaselineCr''
            in (case as_number (get_or_invalid reversePassTimeLineData ''Cr'') of
                  Inl err \<Rightarrow> Inl err
                | Inr currentCr \<Rightarrow>
                    (let future = (if currentCr > TDF_SMALLEST_VALID_VALUE
                                      \<and> (FutureBaselineCr < TDF_SMALLEST_VALID_VALUE
                                           \<or> currentCr < FutureBaselineCr)
                                   then currentCr else FutureBaselineCr)
                     in if future > TDF_SMALLEST_VALID_VALUE
                        then (case as_number baselineCr of
                                Inl err \<Rightarrow> Inl err
                              | Inr b \<Rightarrow>
                                  (if future < b
                                   then Inr (future, reversePassTimeLineData(''BaselineCr'' \<mapsto> Num future))
                                   else Inr (future, reversePassTimeLineData)))
                        else Inr (future, reversePassTimeLineData))))
      else Inr (FutureBaselineCr, reversePassTimeLineData))"

definition ReverseBaselineGFR :: "string list \<Rightarrow> snapshot \<Rightarrow> py_error + snapshot" where
  "ReverseBaselineGFR allValueVarNameList reversePassTimeLineData =
     (if ''BaselineGFR'' \<in> set allValueVarNameList
      then (case CalculateGFR (get_or_invalid reversePassTimeLineData ''BaselineCr'')
                   (get_or_invalid reversePassTimeLineData ''AgeInYrs'')
                   (get_or_invalid reversePassTimeLineData ''IsMale'') of
              Inl err \<Rightarrow> Inl err
            | Inr eGFR \<Rightarrow>
                (if eGFR > TDF_SMALLEST_VALID_VALUE
                 then Inr (reversePassTimeLineData(''BaselineGFR'' \<mapsto> Num (of_int (py_round eGFR))))
                 else Inr reversePassTimeLineData))
      else Inr reversePassTimeLineData)"

text \<open>
  The InAKI block reads the current value under the key \<^verbatim>\<open>'currentCr'\<close>:
  \<^verbatim>\<open>try: currentCr = reversePassTimeLineData['currentCr']
  except Exception: currentCr = TDF_INVALID_VALUE\<close>
\<close>

definition ReverseInAKI :: "string list \<Rightarrow> snapshot \<Rightarrow> int \<Rightarrow> py_error + snapshot" where
  "ReverseInAKI allValueVarNameList reversePassTimeLineData currentDayNum =
     (if ''InAKI'' \<in> set allValueVarNameList
      then (let baselineCr = get_or_invalid reversePassTimeLineData ''BaselineCr''
            in (case as_number (get_or_invalid reversePassTimeLineData ''currentCr'') of
                  Inl err \<Rightarrow> Inl err
                | Inr currentCr \<Rightarrow>
                    (case (if currentCr > TDF_SMALLEST_VALID_VALUE
                           then (case as_number baselineCr of
                                   Inl err \<Rightarrow> Inl err
                                 | Inr b \<Rightarrow>
                                     (if b > TDF_SMALLEST_VALID_VALUE
                                      then (let deltaCr = currentCr - b
                                            in Inr ((b \<le> 3 / 2 \<and> deltaCr \<ge> 3 / 10)
                                                    \<or> deltaCr \<ge> (3 / 2) * b))
                                      else Inr False))
                           else Inr False) of
                       Inl err \<Rightarrow> Inl err
                     | Inr inAKI \<Rightarrow>
                         (let d1 = reversePassTimeLineData(''InAKI'' \<mapsto> Num (if inAKI then 1 else 0))
                          in if inAKI
                             then Inr (d1(''NextAKIDate'' \<mapsto> Num (of_int currentDayNum)))
                             else Inr (d1(''NextCrAtBaselineDate'' \<mapsto> Num (of_int currentDayNum)))))))
      else Inr reversePassTimeLineData)"

definition CalculateAllDerivedValuesREVERSEPass ::
  "string list \<Rightarrow> real \<Rightarrow> snapshot \<Rightarrow> int \<Rightarrow> py_error + (real \<times> snapshot)" where
  "CalculateAllDerivedValuesREVERSEPass allValueVarNameList FutureBaselineCr
       reversePassTimeLineData currentDayNum =
     (case ReverseBaselineCr allValueVarNameList FutureBaselineCr reversePassTimeLineData of
        Inl err \<Rightarrow> Inl err
      | Inr (future, d1) \<Rightarrow>
          (case ReverseBaselineGFR allValueVarNameList d1 of
             Inl err \<Rightarrow> Inl err
           | Inr d2 \<Rightarrow>
               (case ReverseInAKI allValueVarNameList d2 currentDayNum of
                  Inl err \<Rightarrow> Inl err
                | Inr d3 \<Rightarrow> Inr (future, d3))))"

text \<open>
  The reverse loop of CompileTimelineImpl, from the last TimePoint to the first. The
  function takes the timeline in reverse order (last TimePoint first) and returns the
  updated entries in the same order, with the final FutureBaselineCr.
\<close>

fun ReversePassFrom ::
  "string list \<Rightarrow> real \<Rightarrow> timeline_entry list \<Rightarrow> py_error + (real \<times> timeline_entry list)" where
  "ReversePassFrom allValueVarNameList FutureBaselineCr [] = Inr (FutureBaselineCr, [])"
| "ReversePassFrom allValueVarNameList FutureBaselineCr (timelineEntry # earlier) =
     (case CalculateAllDerivedValuesREVERSEPass allValueVarNameList FutureBaselineCr
             (data timelineEntry) (TimeDays timelineEntry) of
        Inl err \<Rightarrow> Inl err
      | Inr (future, d) \<Rightarrow>
          (case ReversePassFrom allValueVarNameList future earlier of
             Inl err \<Rightarrow> Inl err
           | Inr (future', earlier') \<Rightarrow> Inr (future', timelineEntry\<lparr>data := d\<rparr> # earlier')))"

text \<open>
  The reverse pass on a compiled timeline in day order; FutureBaselineCr starts at the
  sentinel, as CompileTimelineImpl sets it before the passes.
\<close>

definition ReversePass :: "string list \<Rightarrow> timeline_entry list \<Rightarrow> py_error + timeline_entry list" where
  "ReversePass allValueVarNameList CompiledTimeline =
     (case ReversePassFrom allValueVarNameList TDF_INVALID_VALUE (rev CompiledTimeline) of
        Inl err \<Rightarrow> Inl err
      | Inr (future, entries) \<Rightarrow> Inr (rev entries))"

section \<open>CompileTimelineImpl on lab data nodes (tdfTools.py)\<close>

text \<open>
  The reader attributes that CompileTimelineImpl uses. allValuesLabInfoList runs parallel
  to allValueVarNameList and holds no None once ParseVariableList has returned.
\<close>

record reader =
  allValueVarNameList :: "string list"
  allValuesLabInfoList :: "lab_info list"
  fCarryForwardPreviousDataValues :: bool
  CurrentIsMale :: int
  CurrentRaceStr :: string
  CurrentWtInKg :: real
  CompiledTimeline :: "timeline_entry list"
  latestTimelineEntryDataList :: snapshot
  FutureBaselineCr :: real
  baselineCrSeries :: "CTimeSeries option"
  Milestones :: milestones

text \<open>
  The input is restricted to the data nodes (\<^verbatim>\<open><D C=... T=...>name=value,...</D>\<close>) whose timestamp
  is well formed and whose values parse as numbers: the day of the timestamp, the class
  attribute and the name=value list. Event, outcome and text nodes are outside the model.
\<close>

record data_node =
  node_T :: int
  node_C :: string
  node_values :: "(string \<times> real) list"

definition py_lower :: "string \<Rightarrow> string" where
  "py_lower str =
     map (\<lambda>c. if of_char c \<ge> (65::nat) \<and> of_char c \<le> (90::nat) then char_of (of_char c + (32::nat))
               else c) str"

text \<open>The initial accumulator: every requested name at the sentinel, then the special values.\<close>

definition InitialDataList :: "reader \<Rightarrow> snapshot" where
  "InitialDataList self =
     (let names = allValueVarNameList self;
          d0 = fold (\<lambda>nameStr d. d(nameStr \<mapsto> Num TDF_INVALID_VALUE)) names Map.empty;
          d1 = (if ''IsMale'' \<in> set names then d0(''IsMale'' \<mapsto> Num (of_int (CurrentIsMale self))) else d0);
          d2 = (if ''WtKg'' \<in> set names
                then d1(''WtKg'' \<mapsto> Num (of_int (py_int (CurrentWtInKg self)))) else d1);
          d3 = (if ''IsCaucasian'' \<in> set names
                then d2(''IsCaucasian'' \<mapsto> Num (if py_lower (CurrentRaceStr self) = ''w'' then 1 else 0))
                else d2);
          d4 = (if ''DiedThisAdmission'' \<in> set names then d3(''DiedThisAdmission'' \<mapsto> Num 0) else d3);
          d5 = (if ''HospitalAdmitDate'' \<in> set names
                then d4(''HospitalAdmitDate'' \<mapsto> Num TDF_INVALID_VALUE) else d4);
          d6 = (if ''InAKI'' \<in> set names then d5(''InAKI'' \<mapsto> Num TDF_INVALID_VALUE) else d5);
          d7 = (if ''InHospital'' \<in> set names then d6(''InHospital'' \<mapsto> Num 0) else d6);
          d8 = (if ''MajorSurgeries'' \<in> set names then d7(''MajorSurgeries'' \<mapsto> Num 0) else d7)
      in if ''GIProcedures'' \<in> set names then d8(''GIProcedures'' \<mapsto> Num 0) else d8)"

text \<open>The per-variable action applied to the copy that seeds a new TimePoint.\<close>

definition ApplyActionAfterEachTimePeriod :: "string \<times> lab_info \<Rightarrow> snapshot \<Rightarrow> snapshot" where
  "ApplyActionAfterEachTimePeriod nv newDataList =
     (case nv of (valueName, varDictInfo) \<Rightarrow>
        (if ActionAfterEachTimePeriod varDictInfo = [] then newDataList
         else if ActionAfterEachTimePeriod varDictInfo = ''inval''
         then newDataList(valueName \<mapsto> Num TDF_INVALID_VALUE)
         else if ActionAfterEachTimePeriod varDictInfo = ''zero'' then newDataList(valueName \<mapsto> Num 0)
         else if ActionAfterEachTimePeriod varDictInfo = ''none'' then newDataList(valueName \<mapsto> PyNone)
         else if ActionAfterEachTimePeriod varDictInfo = ''remove'' \<and> newDataList valueName \<noteq> None
         then newDataList(valueName := None)
         else newDataList))"

text \<open>
  \<^verbatim>\<open>self.latestTimelineEntryDataList\<close> and the \<^verbatim>\<open>'data'\<close> of the latest timeline entry are one
  dictionary object, so a store through the first is a store into the last entry.
\<close>

definition StoreLatest :: "reader \<Rightarrow> snapshot \<Rightarrow> reader" where
  "StoreLatest self d =
     self\<lparr>latestTimelineEntryDataList := d,
          CompiledTimeline :=
            (case CompiledTimeline self of
               [] \<Rightarrow> []
             | e # es \<Rightarrow> butlast (e # es) @ [(last (e # es))\<lparr>data := d\<rparr>])\<rparr>"

text \<open>One name=value pair of a lab or vitals node in ProcessDataNodeForwardImpl.\<close>

definition StoreLabValue ::
  "(string \<rightharpoonup> lab_info) \<Rightarrow> string list \<Rightarrow> string \<times> real \<Rightarrow> snapshot \<Rightarrow> snapshot" where
  "StoreLabValue labValueInfo names assignment d =
     (case assignment of (labName, labValueFloat) \<Rightarrow>
        (case labValueInfo labName of
           None \<Rightarrow> d
         | Some labInfo \<Rightarrow>
             (if labName \<notin> set names then d
              else if labName = ''GFR'' then d
              else if labValueFloat < TDF_SMALLEST_VALID_VALUE \<or> labValueFloat \<ge> 10 * maxVal labInfo
              then d
              else (let v1 = (if labValueFloat < minVal labInfo then minVal labInfo else labValueFloat);
                        v2 = (if v1 > maxVal labInfo then maxVal labInfo else v1)
                    in d(labName \<mapsto> Num v2)))))"

definition ProcessDataNodeForwardImpl ::
  "(string \<rightharpoonup> lab_info) \<Rightarrow> reader \<Rightarrow> data_node \<Rightarrow> int \<Rightarrow> reader" where
  "ProcessDataNodeForwardImpl labValueInfo self dataNode labDateDays =
     (let names = allValueVarNameList self;
          d0 = latestTimelineEntryDataList self;
          d1 = (if node_C dataNode = ''L'' \<or> node_C dataNode = ''V''
                then fold (StoreLabValue labValueInfo names) (node_values dataNode) d0 else d0);
          d2 = (if ''AgeInYrs'' \<in> set names
                then d1(''AgeInYrs'' \<mapsto> Num (of_int (py_int (real_of_int labDateDays / 365)))) else d1)
      in StoreLatest self d2)"

text \<open>
  CalculateDerivedValuesFORWARDPass. The branch for BaselineCr is modelled; the branches
  for the other calculated variables (GFR, MELD, the CYP counts, BUNCrRatio, ...) are the
  argument \<open>otherDerivedValues\<close>, a function from the variable name, the day and the
  snapshot to the new snapshot or an exception. A method call on
  \<^verbatim>\<open>self.baselineCrSeries\<close> while it is None is an AttributeError.
\<close>

definition CalculateDerivedValuesFORWARDPass ::
  "(string \<Rightarrow> int \<Rightarrow> snapshot \<Rightarrow> py_error + snapshot) \<Rightarrow> reader \<Rightarrow> string \<Rightarrow> int \<Rightarrow>
   py_error + reader" where
  "CalculateDerivedValuesFORWARDPass otherDerivedValues self varName currentDayNum =
     (let varValueDict = latestTimelineEntryDataList self
      in if varName = ''BaselineCr''
         then (case as_number (get_or_invalid varValueDict ''Cr'') of
                 Inl err \<Rightarrow> Inl err
               | Inr currrentCr \<Rightarrow>
                   (case (if currrentCr > TDF_SMALLEST_VALID_VALUE
                          then (case baselineCrSeries self of
                                  None \<Rightarrow> Inl AttributeError
                                | Some series \<Rightarrow>
                                    map_sum id Some
                                      (AddNewValue series currrentCr (of_int currentDayNum) 0))
                          else Inr (baselineCrSeries self)) of
                      Inl err \<Rightarrow> Inl err
                    | Inr None \<Rightarrow> Inl AttributeError
                    | Inr (Some series) \<Rightarrow>
                        Inr (StoreLatest (self\<lparr>baselineCrSeries := Some series\<rparr>)
                               (varValueDict(''BaselineCr'' \<mapsto>
                                  (case GetLowestValue series of
                                     None \<Rightarrow> PyNone
                                   | Some low \<Rightarrow> Num low))))))
         else map_sum id (StoreLatest self) (otherDerivedValues varName currentDayNum varValueDict))"

text \<open>
  \<^verbatim>\<open>for labInfoIndex, labInfo in enumerate(self.allValuesLabInfoList):
      if ((labInfo is not None) and (labInfo['Calculated'])): ...\<close>
\<close>

fun CalculateAllForward ::
  "(string \<Rightarrow> int \<Rightarrow> snapshot \<Rightarrow> py_error + snapshot) \<Rightarrow> reader \<Rightarrow> (string \<times> lab_info) list \<Rightarrow> int \<Rightarrow>
   py_error + reader" where
  "CalculateAllForward otherDerivedValues self [] labDateDays = Inr self"
| "CalculateAllForward otherDerivedValues self ((labName, labInfo) # rest) labDateDays =
     (if Calculated labInfo
      then (case CalculateDerivedValuesFORWARDPass otherDerivedValues self labName labDateDays of
              Inl err \<Rightarrow> Inl err
            | Inr self' \<Rightarrow> CalculateAllForward otherDerivedValues self' rest labDateDays)
      else CalculateAllForward otherDerivedValues self rest labDateDays)"

text \<open>
  One iteration of the forward loop for a data node. The loop variables
  latestTimeLineEntryTimeDays and currentTimelinePointID travel with the reader.
  \<^verbatim>\<open>self.latestTimeLineEntry is not None\<close> holds exactly when the timeline is not empty.
\<close>

definition ForwardDataNode ::
  "(string \<rightharpoonup> lab_info) \<Rightarrow> (string \<Rightarrow> int \<Rightarrow> snapshot \<Rightarrow> py_error + snapshot) \<Rightarrow> snapshot \<Rightarrow>
   reader \<times> int \<times> int \<Rightarrow> data_node \<Rightarrow> py_error + (reader \<times> int \<times> int)" where
  "ForwardDataNode labValueInfo otherDerivedValues savedInitialDataList st currentNode =
     (case st of (self, latestTimeLineEntryTimeDays, currentTimelinePointID) \<Rightarrow>
        (let labDateDays = node_T currentNode;
             reuseLatestData = (latestTimeLineEntryTimeDays = labDateDays);
             st1 = (if reuseLatestData \<and> CompiledTimeline self \<noteq> []
                    then (self, latestTimeLineEntryTimeDays, currentTimelinePointID)
                    else (let newDataList =
                                fold ApplyActionAfterEachTimePeriod
                                  (zip (allValueVarNameList self) (allValuesLabInfoList self))
                                  (if fCarryForwardPreviousDataValues self
                                   then latestTimelineEntryDataList self
                                   else savedInitialDataList);
                              timelineEntry = \<lparr>TimeDays = labDateDays,
                                               TID = currentTimelinePointID + 1,
                                               data = newDataList\<rparr>
                          in (self\<lparr>CompiledTimeline := CompiledTimeline self @ [timelineEntry],
                                   latestTimelineEntryDataList := newDataList\<rparr>,
                              labDateDays, currentTimelinePointID + 1)))
         in (case st1 of (self1, days1, id1) \<Rightarrow>
               (case CalculateAllForward otherDerivedValues
                       (ProcessDataNodeForwardImpl labValueInfo self1 currentNode labDateDays)
                       (zip (allValueVarNameList self1) (allValuesLabInfoList self1))
                       labDateDays of
                  Inl err \<Rightarrow> Inl err
                | Inr self2 \<Rightarrow> Inr (self2, days1, id1)))))"

fun ForwardPass ::
  "(string \<rightharpoonup> lab_info) \<Rightarrow> (string \<Rightarrow> int \<Rightarrow> snapshot \<Rightarrow> py_error + snapshot) \<Rightarrow> snapshot \<Rightarrow>
   reader \<times> int \<times> int \<Rightarrow> data_node list \<Rightarrow> py_error + (reader \<times> int \<times> int)" where
  "ForwardPass labValueInfo otherDerivedValues savedInitialDataList st [] = Inr st"
| "ForwardPass labValueInfo otherDerivedValues savedInitialDataList st (currentNode # rest) =
     (case ForwardDataNode labValueInfo otherDerivedValues savedInitialDataList st currentNode of
        Inl err \<Rightarrow> Inl err
      | Inr st' \<Rightarrow> ForwardPass labValueInfo otherDerivedValues savedInitialDataList st' rest)"

text \<open>
  CompileTimelineImpl: the initialisation, the forward pass over the nodes, the second
  forward sweep for the milestones and the reverse pass. The series for the baseline is
  created when the name \<^verbatim>\<open>"baselineCr"\<close> is in the variable list.
\<close>

definition CompileTimelineImpl ::
  "(string \<rightharpoonup> lab_info) \<Rightarrow> (string \<Rightarrow> int \<Rightarrow> snapshot \<Rightarrow> py_error + snapshot) \<Rightarrow> reader \<Rightarrow>
   data_node list \<Rightarrow> py_error + reader" where
  "CompileTimelineImpl labValueInfo otherDerivedValues self nodes =
     (let self0 = self\<lparr>CompiledTimeline := [],
                       latestTimelineEntryDataList := InitialDataList self,
                       Milestones := milestones_init,
                       FutureBaselineCr := TDF_INVALID_VALUE,
                       baselineCrSeries :=
                         (if ''baselineCr'' \<in> set (allValueVarNameList self)
                          then Some (CTimeSeries_init 7) else None)\<rparr>
      in (case ForwardPass labValueInfo otherDerivedValues (InitialDataList self)
                 (self0, TDF_INVALID_VALUE, - 1) nodes of
            Inl err \<Rightarrow> Inl err
          | Inr (self1, latestDays, pointID) \<Rightarrow>
              (case SecondForwardPass (Milestones self1) (CompiledTimeline self1) of
                 Inl err \<Rightarrow> Inl err
               | Inr ms \<Rightarrow>
                   (case ReversePassFrom (allValueVarNameList self1) (FutureBaselineCr self1)
                           (rev (CompiledTimeline self1)) of
                      Inl err \<Rightarrow> Inl err
                    | Inr (future, entries) \<Rightarrow>
                        Inr (self1\<lparr>Milestones := ms, FutureBaselineCr := future,
                                   CompiledTimeline := rev entries\<rparr>)))))"

section \<open>The partitioned streaming reader (tdfTools.py)\<close>

text \<open>
  The file is its sequence of bytes and the file handle is a byte position.
  \<^verbatim>\<open>readline()\<close> returns the bytes from the position up to and including the next newline,
  or up to the end of the file; \<^verbatim>\<open>decode("ascii", "ignore")\<close> drops the bytes above 127.
\<close>

definition readline :: "string \<Rightarrow> nat \<Rightarrow> string" where
  "readline fileBytes pos =
     (let rest = drop pos fileBytes; line = takeWhile (\<lambda>c. c \<noteq> CHR 0x0A) rest
      in if length line < length rest then line @ [CHR 0x0A] else line)"

definition decode_ascii_ignore :: "string \<Rightarrow> string" where
  "decode_ascii_ignore bytes = filter (\<lambda>c. (of_char c :: nat) < 128) bytes"

text \<open>The characters that \<^verbatim>\<open>str.lstrip()\<close> and \<^verbatim>\<open>str.rstrip()\<close> remove from an ASCII string.\<close>

definition is_space :: "char \<Rightarrow> bool" where
  "is_space c = (let n = (of_char c :: nat) in (9 \<le> n \<and> n \<le> 13) \<or> (28 \<le> n \<and> n \<le> 32))"

definition py_strip :: "string \<Rightarrow> string" where
  "py_strip str = rev (dropWhile is_space (rev (dropWhile is_space str)))"

definition py_startswith :: "string \<Rightarrow> string \<Rightarrow> bool" where
  "py_startswith str pre = (take (length pre) str = pre)"

definition TIMELINE_OPEN_ELEMENT_PREFIX_CASE_INDEPENDANT :: string where
  "TIMELINE_OPEN_ELEMENT_PREFIX_CASE_INDEPENDANT = ''<tl''"

definition TIMELINE_CLOSE_ELEMENT_CASE_INDEPENDANT :: string where
  "TIMELINE_CLOSE_ELEMENT_CASE_INDEPENDANT = ''</tl>''"

text \<open>
  \<^verbatim>\<open>re.compile('<TL', re.IGNORECASE).match(currentLine)\<close> and the same for \<^verbatim>\<open>'</TL>'\<close>: the
  pattern must match at the first character of the line, in either case.
\<close>

definition openElement_match :: "string \<Rightarrow> bool" where
  "openElement_match currentLine = (py_lower (take 3 currentLine) = ''<tl'')"

definition closeElement_match :: "string \<Rightarrow> bool" where
  "closeElement_match currentLine = (py_lower (take 5 currentLine) = ''</tl>'')"

text \<open>
  The loop of FindAllTimelinesInPartition, on the file position, fFoundOpenElement,
  currentOpenElementPosition and the list of results. It returns the list of
  (start, stop) positions and fEOF.
\<close>

function FindAllTimelinesLoop ::
  "string \<Rightarrow> int \<Rightarrow> nat \<Rightarrow> bool \<Rightarrow> int \<Rightarrow> (int \<times> int) list \<Rightarrow> (int \<times> int) list \<times> bool" where
  "FindAllTimelinesLoop fileBytes stopPartition pos fFoundOpenElement currentOpenElementPosition
       resultTimelinePositionLists =
     (let currentLinePositonInFile = int pos
      in if \<not> fFoundOpenElement \<and> 0 < stopPartition \<and> stopPartition \<le> currentLinePositonInFile
         then (resultTimelinePositionLists, False)
         else (let binaryLine = readline fileBytes pos;
                   currentLine = decode_ascii_ignore binaryLine
               in if currentLine = [] then (resultTimelinePositionLists, True)
                  else if fFoundOpenElement
                  then (if closeElement_match currentLine
                        then FindAllTimelinesLoop fileBytes stopPartition (pos + length binaryLine)
                               False currentOpenElementPosition
                               (resultTimelinePositionLists @
                                  [(currentOpenElementPosition,
                                    currentLinePositonInFile + int (length currentLine))])
                        else FindAllTimelinesLoop fileBytes stopPartition (pos + length binaryLine)
                               True currentOpenElementPosition resultTimelinePositionLists)
                  else (if openElement_match currentLine
                        then FindAllTimelinesLoop fileBytes stopPartition (pos + length binaryLine)
                               True currentLinePositonInFile resultTimelinePositionLists
                        else FindAllTimelinesLoop fileBytes stopPartition (pos + length binaryLine)
                               False currentOpenElementPosition resultTimelinePositionLists)))"
  by pat_completeness auto
termination
proof -
  have advance: "length fileBytes - (pos + length (readline fileBytes pos)) < length fileBytes - pos"
    if "decode_ascii_ignore (readline fileBytes pos) \<noteq> []" for fileBytes pos
  proof -
    from that have "readline fileBytes pos \<noteq> []"
      by (auto simp: decode_ascii_ignore_def)
    moreover from this have "pos < length fileBytes"
      by (cases "pos < length fileBytes") (auto simp: readline_def Let_def)
    ultimately show ?thesis
      by (cases "readline fileBytes pos") auto
  qed
  show ?thesis
    by (relation "measure (\<lambda>(fileBytes, stopPartition, pos, fFound, openPos, results).
                            length fileBytes - pos)")
       (auto simp: advance)
qed

definition FindAllTimelinesInPartition :: "string \<Rightarrow> nat \<Rightarrow> int \<Rightarrow> (int \<times> int) list \<times> bool" where
  "FindAllTimelinesInPartition fileBytes startPartition stopPartition =
     FindAllTimelinesLoop fileBytes stopPartition startPartition False TDF_INVALID_VALUE []"

text \<open>
  CreateFilePartitionList: consecutive partitions of partitionSizeInBytes bytes, the last
  one cut at the length of the file. (A size of zero would never advance; the model needs a
  positive size.)
\<close>

function CreateFilePartitionsFrom :: "nat \<Rightarrow> nat \<Rightarrow> nat \<Rightarrow> (nat \<times> nat) list" where
  "CreateFilePartitionsFrom fileLength partitionSizeInBytes partitionStartPos =
     (if partitionStartPos < fileLength \<and> 0 < partitionSizeInBytes
      then (let partitionStopPos = min (partitionStartPos + partitionSizeInBytes) fileLength
            in (partitionStartPos, partitionStopPos) #
               CreateFilePartitionsFrom fileLength partitionSizeInBytes partitionStopPos)
      else [])"
  by pat_completeness auto
termination
  by (relation "measure (\<lambda>(fileLength, sz, start). fileLength - start)") auto

definition CreateFilePartitionList :: "string \<Rightarrow> nat \<Rightarrow> (nat \<times> nat) list" where
  "CreateFilePartitionList fileBytes partitionSizeInBytes =
     CreateFilePartitionsFrom (length fileBytes) partitionSizeInBytes 0"

text \<open>
  Contiguous, non-overlapping partitions whose union is the whole file: each starts where
  the previous one stops, the first at 0 and the last at the length of the file.
\<close>

fun partitions_cover :: "nat \<Rightarrow> nat \<Rightarrow> (nat \<times> nat) list \<Rightarrow> bool" where
  "partitions_cover pos fileLength [] = (pos = fileLength)"
| "partitions_cover pos fileLength ((start, stop) # rest) =
     (start = pos \<and> start < stop \<and> partitions_cover stop fileLength rest)"

text \<open>
  The loop of ReadNextTimelineXMLStrImpl, on the file position, fStartedTimelineSection,
  startTimelinePosInFile and currentTimelineNodeStr. It returns (fFoundTimeline, fEOF,
  startTimelinePosInFile, stopTimelinePosInFile), the text of the fragment and the file
  position it leaves.
\<close>

function ReadNextTimelineLoop ::
  "string \<Rightarrow> int \<Rightarrow> nat \<Rightarrow> bool \<Rightarrow> int \<Rightarrow> string \<Rightarrow> (bool \<times> bool \<times> int \<times> int) \<times> string \<times> nat" where
  "ReadNextTimelineLoop fileBytes stopPartition pos fStartedTimelineSection startTimelinePosInFile
       currentTimelineNodeStr =
     (let currentLinePositon = int pos
      in if 0 < stopPartition \<and> stopPartition \<le> currentLinePositon \<and> \<not> fStartedTimelineSection
         then ((False, False, startTimelinePosInFile, TDF_INVALID_VALUE), currentTimelineNodeStr, pos)
         else (let binaryLine = readline fileBytes pos;
                   pos' = pos + length binaryLine;
                   currentLine = decode_ascii_ignore binaryLine
               in if currentLine = []
                  then ((False, True, startTimelinePosInFile, TDF_INVALID_VALUE),
                        currentTimelineNodeStr, pos')
                  else (let lineTokenText = py_lower (py_strip currentLine);
                            starts = (\<not> fStartedTimelineSection
                                      \<and> py_startswith lineTokenText
                                           TIMELINE_OPEN_ELEMENT_PREFIX_CASE_INDEPENDANT);
                            started = (fStartedTimelineSection \<or> starts);
                            startPos = (if starts then currentLinePositon else startTimelinePosInFile);
                            nodeStr = (if started then currentTimelineNodeStr @ currentLine
                                       else currentTimelineNodeStr)
                        in if py_startswith lineTokenText TIMELINE_CLOSE_ELEMENT_CASE_INDEPENDANT
                              \<and> started
                           then ((True, False, startPos, int pos'), nodeStr, pos')
                           else ReadNextTimelineLoop fileBytes stopPartition pos' started startPos
                                  nodeStr)))"
  by pat_completeness auto
termination
proof -
  have advance: "length fileBytes - (pos + length (readline fileBytes pos)) < length fileBytes - pos"
    if "decode_ascii_ignore (readline fileBytes pos) \<noteq> []" for fileBytes pos
  proof -
    from that have "readline fileBytes pos \<noteq> []"
      by (auto simp: decode_ascii_ignore_def)
    moreover from this have "pos < length fileBytes"
      by (cases "pos < length fileBytes") (auto simp: readline_def Let_def)
    ultimately show ?thesis
      by (cases "readline fileBytes pos") auto
  qed
  show ?thesis
    by (relation "measure (\<lambda>(fileBytes, stopPartition, pos, started, startPos, nodeStr).
                            length fileBytes - pos)")
       (auto simp: advance)
qed

definition ReadNextTimelineXMLStrImpl ::
  "string \<Rightarrow> nat \<Rightarrow> int \<Rightarrow> (bool \<times> bool \<times> int \<times> int) \<times> string \<times> nat" where
  "ReadNextTimelineXMLStrImpl fileBytes pos stopPartition =
     ReadNextTimelineLoop fileBytes stopPartition pos False TDF_INVALID_VALUE []"

section \<open>Example inputs\<close>

text \<open>
  A compiled timeline of two TimePoints with creatinine 1.0 on day 100 and 2.0 on day 101.
\<close>

definition example_timeline :: "timeline_entry list" where
  "example_timeline =
     [\<lparr>TimeDays = 100, TID = 0, data = [''Cr'' \<mapsto> Num 1]\<rparr>,
      \<lparr>TimeDays = 101, TID = 1, data = [''Cr'' \<mapsto> Num 2]\<rparr>]"

text \<open>
  The scenario of the comments on the baseline: creatinine 1.0 on day 100, 2.9 on day 103
  and 1.4 on day 110, each TimePoint with the lowest value of its trailing seven days as
  the baseline that the forward pass is meant to leave.
\<close>

definition aki_timeline :: "timeline_entry list" where
  "aki_timeline =
     [\<lparr>TimeDays = 100, TID = 0, data = [''Cr'' \<mapsto> Num 1, ''BaselineCr'' \<mapsto> Num 1]\<rparr>,
      \<lparr>TimeDays = 103, TID = 1, data = [''Cr'' \<mapsto> Num (29 / 10), ''BaselineCr'' \<mapsto> Num 1]\<rparr>,
      \<lparr>TimeDays = 110, TID = 2,
       data = [''Cr'' \<mapsto> Num (14 / 10), ''BaselineCr'' \<mapsto> Num (14 / 10)]\<rparr>]"

text \<open>
  A file laid out as TDFFileWriter writes it (header abridged): the header holds the
  indented line \<^verbatim>\<open><TLLocationIndex></TLLocationIndex>\<close>, whose \<^verbatim>\<open><\<close> is byte 11 here, and the
  timeline list holds one timeline.
\<close>

definition example_file :: string where
  "example_file =
     ''<Head>\<newline>    <TLLocationIndex></TLLocationIndex>\<newline></Head>\<newline><TimelineList>\<newline><TL id=\"1\">\<newline><D C=\"L\" T=\"0100:00:00\">Cr=1.0</D>\<newline></TL>\<newline></TimelineList>\<newline>''"

section \<open>Predicates and examples used in the proofs\<close>

text \<open>
  One step of the tracking of one onset date, as every stage branch of
  RecordTimeMilestonesOnForwardPass treats it: a score that meets the criterion of the stage
  sets the date when it is unset, a score that does not meet it clears the date.
\<close>

definition track_onset :: "(real \<Rightarrow> bool) \<Rightarrow> int \<Rightarrow> (int \<times> real) \<Rightarrow> int" where
  "track_onset criterion startDate score =
     (case score of (day, x) \<Rightarrow> if criterion x then SetIfUnset startDate day else TDF_INVALID_VALUE)"

text \<open>The valid scores that one TimePoint contributes.\<close>

definition scores_of :: "string \<Rightarrow> timeline_entry \<Rightarrow> (int \<times> real) list" where
  "scores_of name e = (case data e name of
                         Some (Num x) \<Rightarrow> (if x < TDF_SMALLEST_VALID_VALUE then [] else [(TimeDays e, x)])
                       | _ \<Rightarrow> [])"

text \<open>The eight onset dates after a run of GFR and MELD scores, as folds of the tracking step.\<close>

definition dates_follow :: "milestones \<Rightarrow> milestones \<Rightarrow> (int \<times> real) list \<Rightarrow> (int \<times> real) list \<Rightarrow> bool" where
  "dates_follow s s' gfr meld =
     (StartCKD5Date s' = foldl (track_onset (\<lambda>g. g < 15)) (StartCKD5Date s) gfr
      \<and> StartCKD4Date s' = foldl (track_onset (\<lambda>g. g < 30)) (StartCKD4Date s) gfr
      \<and> StartCKD3bDate s' = foldl (track_onset (\<lambda>g. g < 45)) (StartCKD3bDate s) gfr
      \<and> StartCKD3aDate s' = foldl (track_onset (\<lambda>g. g < 60)) (StartCKD3aDate s) gfr
      \<and> StartMELD40Date s' = foldl (track_onset (\<lambda>m. m \<ge> 40)) (StartMELD40Date s) meld
      \<and> StartMELD30Date s' = foldl (track_onset (\<lambda>m. m \<ge> 30)) (StartMELD30Date s) meld
      \<and> StartMELD20Date s' = foldl (track_onset (\<lambda>m. m \<ge> 20)) (StartMELD20Date s) meld
      \<and> StartMELD10Date s' = foldl (track_onset (\<lambda>m. m \<ge> 10)) (StartMELD10Date s) meld)"

text \<open>
  A timeline whose days are not negative and whose GFR and MELD entries, where present, are
  numbers: what CompileTimelineImpl hands to the second forward sweep.
\<close>

definition numeric_or_absent :: "pyval option \<Rightarrow> bool" where
  "numeric_or_absent v = (case v of None \<Rightarrow> True | Some (Num x) \<Rightarrow> True | Some _ \<Rightarrow> False)"

definition scored_timeline :: "timeline_entry list \<Rightarrow> bool" where
  "scored_timeline ctl =
     list_all (\<lambda>e. TimeDays e \<ge> 0 \<and> numeric_or_absent (data e ''GFR'')
                    \<and> numeric_or_absent (data e ''MELD'')) ctl"

text \<open>
  The invariant of the reverse pass over the TimePoints already visited (newest first):
  creatinine entries are kept, and a stored baseline is at most the running future minimum
  and at most every valid creatinine at or after its TimePoint.
\<close>

definition baseline_bounded :: "real \<Rightarrow> timeline_entry list \<Rightarrow> timeline_entry list \<Rightarrow> bool" where
  "baseline_bounded F es es' =
     (length es' = length es
      \<and> (\<forall>i < length es. data (es' ! i) ''Cr'' = data (es ! i) ''Cr'')
      \<and> (\<forall>i < length es. \<forall>b. data (es' ! i) ''BaselineCr'' = Some (Num b) \<longrightarrow>
            (F > TDF_SMALLEST_VALID_VALUE \<longrightarrow> b \<le> F)
            \<and> (\<forall>j \<le> i. \<forall>c. data (es ! j) ''Cr'' = Some (Num c) \<longrightarrow>
                   c > TDF_SMALLEST_VALID_VALUE \<longrightarrow> b \<le> c)))"

text \<open>
  Three observations 0.5, 0.5 and 0.6 on days 0, 1 and 2, the last as the float that
  \<^verbatim>\<open>float("0.6")\<close> is.
\<close>

definition residue_observations :: "(real \<times> int \<times> int) list" where
  "residue_observations = [(1 / 2, 0, 0), (1 / 2, 1, 0), (fl (6 / 10), 2, 0)]"

text \<open>
  GFR 50, 25, 50, 25, 20 on days 10 to 50: stage 4 is entered on day 20, left on day 30 and
  entered again on day 40.
\<close>

definition gfr_timeline :: "timeline_entry list" where
  "gfr_timeline =
     [\<lparr>TimeDays = 10, TID = 0, data = [''GFR'' \<mapsto> Num 50]\<rparr>,
      \<lparr>TimeDays = 20, TID = 1, data = [''GFR'' \<mapsto> Num 25]\<rparr>,
      \<lparr>TimeDays = 30, TID = 2, data = [''GFR'' \<mapsto> Num 50]\<rparr>,
      \<lparr>TimeDays = 40, TID = 3, data = [''GFR'' \<mapsto> Num 25]\<rparr>,
      \<lparr>TimeDays = 50, TID = 4, data = [''GFR'' \<mapsto> Num 20]\<rparr>]"

text \<open>
  Creatinine 2.0, 2.9, 1.4 on days 100, 103, 110 with the trailing minimum as forward
  baseline: the recovery to 1.4 must pull the earlier baselines down.
\<close>

definition recovering_timeline :: "timeline_entry list" where
  "recovering_timeline =
     [\<lparr>TimeDays = 100, TID = 0, data = [''Cr'' \<mapsto> Num 2, ''BaselineCr'' \<mapsto> Num 2]\<rparr>,
      \<lparr>TimeDays = 103, TID = 1, data = [''Cr'' \<mapsto> Num (29 / 10), ''BaselineCr'' \<mapsto> Num 2]\<rparr>,
      \<lparr>TimeDays = 110, TID = 2,
       data = [''Cr'' \<mapsto> Num (14 / 10), ''BaselineCr'' \<mapsto> Num (14 / 10)]\<rparr>]"


text \<open>
  The states of a CTimeSeries after a first AddNewValue: the queue is not empty, every
  entry holds \<^verbatim>\<open>'v'\<close> and \<^verbatim>\<open>'d'\<close> and no \<^verbatim>\<open>'h'\<close>, OldestDay is the day of the first entry, and
  the object no longer reads as empty (\<^verbatim>\<open>OldestDay == -1 and OldestMin == -1\<close>).
\<close>

definition series_ok :: "CTimeSeries \<Rightarrow> bool" where
  "series_ok self =
     (ValueQueue self \<noteq> []
      \<and> (\<forall>e \<in> set (ValueQueue self). e ''v'' \<noteq> None \<and> e ''d'' \<noteq> None \<and> e ''h'' = None)
      \<and> hd (ValueQueue self) ''d'' = Some (OldestDay self)
      \<and> \<not> (OldestDay self = - 1 \<and> OldestMin self = - 1))"

text \<open>
  A reader that requests BaselineCr and Cr, and a record with creatinine 1.0 on day 100 and
  1.4 on day 110.
\<close>

definition baseline_reader :: reader where
  "baseline_reader =
     \<lparr>allValueVarNameList = [''BaselineCr'', ''Cr''],
      allValuesLabInfoList = [the (g_LabValueInfo_rows ''BaselineCr''), the (g_LabValueInfo_rows ''Cr'')],
      fCarryForwardPreviousDataValues = True,
      CurrentIsMale = 1, CurrentRaceStr = ''W'', CurrentWtInKg = TDF_INVALID_VALUE,
      CompiledTimeline = [], latestTimelineEntryDataList = Map.empty,
      FutureBaselineCr = TDF_INVALID_VALUE, baselineCrSeries = None,
      Milestones = milestones_init\<rparr>"

definition creatinine_nodes :: "data_node list" where
  "creatinine_nodes =
     [\<lparr>node_T = 100, node_C = ''L'', node_values = [(''Cr'', 1)]\<rparr>,
      \<lparr>node_T = 110, node_C = ''L'', node_values = [(''Cr'', 14 / 10)]\<rparr>]"

section \<open>Eviction of a stale window\<close>

lemma PopOldValues_older: "older_than n d q \<Longrightarrow> PopOldValues n d q = []"
  by (induction q) (auto simp: older_than_def)

lemma PopOldValuesTotal_older:
  "older_than n d q \<Longrightarrow> PopOldValuesTotal n d q t = (q1, t1) \<Longrightarrow> q1 = []"
  by (induction q arbitrary: t) (auto simp: older_than_def)

lemma PopOldValuesMinMax_ok:
  "PopOldValuesMinMax n d q mx mn = (q1, mx1, mn1) \<Longrightarrow> minmax_ok q mx mn \<Longrightarrow> minmax_ok q1 mx1 mn1"
proof (induction q arbitrary: mx mn)
  case Nil
  then show ?case by simp
next
  case (Cons e q)
  show ?case
  proof (cases "d - entry_d e > n")
    case False
    with Cons.prems show ?thesis by simp
  next
    case True
    show ?thesis
    proof (cases "mn = entry_v e \<or> mx = entry_v e")
      case True
      with \<open>d - entry_d e > n\<close> Cons.prems(1)
      have "PopOldValuesMinMax n d q TDF_INVALID_VALUE TDF_INVALID_VALUE = (q1, mx1, mn1)" by simp
      moreover have "minmax_ok q TDF_INVALID_VALUE TDF_INVALID_VALUE" by (simp add: minmax_ok_def)
      ultimately show ?thesis by (rule Cons.IH)
    next
      case False
      with \<open>d - entry_d e > n\<close> Cons.prems(1)
      have "PopOldValuesMinMax n d q mx mn = (q1, mx1, mn1)" by simp
      moreover from False Cons.prems(2) have "minmax_ok q mx mn" by (auto simp: minmax_ok_def)
      ultimately show ?thesis by (rule Cons.IH)
    qed
  qed
qed

lemma PopOldValuesMinMax_older:
  "older_than n d q \<Longrightarrow> minmax_ok q mx mn \<Longrightarrow>
   \<exists>mx1 mn1. PopOldValuesMinMax n d q mx mn = ([], mx1, mn1) \<and> (mx1 = TDF_INVALID_VALUE \<or> mn1 = TDF_INVALID_VALUE)"
proof (induction q arbitrary: mx mn)
  case Nil
  then show ?case by (simp add: minmax_ok_def)
next
  case (Cons e q)
  from Cons.prems(1) have old: "d - entry_d e > n" and rest: "older_than n d q"
    by (simp_all add: older_than_def)
  show ?case
  proof (cases "mn = entry_v e \<or> mx = entry_v e")
    case True
    have "minmax_ok q TDF_INVALID_VALUE TDF_INVALID_VALUE" by (simp add: minmax_ok_def)
    from Cons.IH[OF rest this] True old show ?thesis by simp
  next
    case False
    with Cons.prems(2) have "minmax_ok q mx mn" by (auto simp: minmax_ok_def)
    from Cons.IH[OF rest this] False old show ?thesis by simp
  qed
qed

lemma PopOldValuesLowest_ok:
  "PopOldValuesLowest n d q l = (q1, l1) \<Longrightarrow> lowest_ok q l \<Longrightarrow> lowest_ok q1 l1"
  by (induction q arbitrary: l) (auto simp: lowest_ok_def split: if_splits)

lemma PopOldValuesLowest_older:
  "older_than n d q \<Longrightarrow> lowest_ok q l \<Longrightarrow> PopOldValuesLowest n d q l = ([], TDF_INVALID_VALUE)"
  by (induction q arbitrary: l) (auto simp: lowest_ok_def older_than_def)

lemma RescanMinMax_mem:
  "RescanMinMax q mx mn = (mx2, mn2) \<Longrightarrow> mn = TDF_INVALID_VALUE \<or> mn \<in> S \<Longrightarrow> entry_v ` set q \<subseteq> S \<Longrightarrow>
   mn2 = TDF_INVALID_VALUE \<or> mn2 \<in> S"
  by (induction q arbitrary: mx mn) (auto split: if_splits)

lemma RescanLowest_mem:
  "l = TDF_INVALID_VALUE \<or> l \<in> S \<Longrightarrow> entry_v ` set q \<subseteq> S \<Longrightarrow>
   RescanLowest q l = TDF_INVALID_VALUE \<or> RescanLowest q l \<in> S"
  by (induction q arbitrary: l) (auto split: if_splits)

lemma tracked_ok_Reset: "tracked_ok (Reset f)"
  by (induction f) (simp_all add: minmax_ok_def lowest_ok_def)

lemma tracked_ok_ComputeNewValue:
  "tracked_ok f \<Longrightarrow> tracked_ok (snd (ComputeNewValue f val dayNum timeMin))"
proof (induction f)
  case (CRangeValue a n q mx mn)
  show ?case
  proof -
    obtain q1 mx1 mn1 where p: "PopOldValuesMinMax n dayNum q mx mn = (q1, mx1, mn1)"
      by (metis prod_cases3)
    with CRangeValue have ok1: "minmax_ok q1 mx1 mn1" by (auto dest: PopOldValuesMinMax_ok)
    let ?q2 = "q1 @ [NewEntry val dayNum timeMin]"
    show ?thesis
    proof (cases "mx1 = TDF_INVALID_VALUE \<or> mn1 = TDF_INVALID_VALUE")
      case True
      obtain mx2 mn2 where r: "RescanMinMax ?q2 TDF_INVALID_VALUE TDF_INVALID_VALUE = (mx2, mn2)"
        by (metis surj_pair)
      from RescanMinMax_mem[OF r, of "entry_v ` set ?q2"]
      have "minmax_ok ?q2 mx2 mn2" by (auto simp: minmax_ok_def)
      with p True r show ?thesis by (auto simp: Let_def)
    next
      case False
      with ok1 have "mn1 \<in> entry_v ` set q1" by (auto simp: minmax_ok_def)
      with p False show ?thesis by (auto simp: Let_def minmax_ok_def NewEntry_def)
    qed
  qed
next
  case (CThresholdValue a th n q mx mn)
  show ?case
  proof -
    obtain q1 mx1 mn1 where p: "PopOldValuesMinMax n dayNum q mx mn = (q1, mx1, mn1)"
      by (metis prod_cases3)
    with CThresholdValue have ok1: "minmax_ok q1 mx1 mn1" by (auto dest: PopOldValuesMinMax_ok)
    let ?q2 = "q1 @ [NewEntry val dayNum timeMin]"
    show ?thesis
    proof (cases "mx1 = TDF_INVALID_VALUE \<or> mn1 = TDF_INVALID_VALUE")
      case True
      obtain mx2 mn2 where r: "RescanMinMax ?q2 TDF_INVALID_VALUE TDF_INVALID_VALUE = (mx2, mn2)"
        by (metis surj_pair)
      from RescanMinMax_mem[OF r, of "entry_v ` set ?q2"]
      have "minmax_ok ?q2 mx2 mn2" by (auto simp: minmax_ok_def)
      with p True r show ?thesis by (auto simp: Let_def)
    next
      case False
      with ok1 have "mn1 \<in> entry_v ` set q1" by (auto simp: minmax_ok_def)
      with p False show ?thesis by (auto simp: Let_def minmax_ok_def NewEntry_def)
    qed
  qed
next
  case (CPercentChangeValue n q l)
  show ?case
  proof -
    obtain q1 l1 where p: "PopOldValuesLowest n dayNum q l = (q1, l1)" by (metis surj_pair)
    with CPercentChangeValue have ok1: "lowest_ok q1 l1" by (auto dest: PopOldValuesLowest_ok)
    let ?q2 = "q1 @ [NewEntry val dayNum timeMin]"
    from RescanLowest_mem[of TDF_INVALID_VALUE "entry_v ` set ?q2" ?q2]
    have "lowest_ok ?q2 (RescanLowest ?q2 TDF_INVALID_VALUE)" by (auto simp: lowest_ok_def)
    with p ok1 show ?thesis by (auto simp: Let_def lowest_ok_def)
  qed
qed (auto simp: Let_def split: prod.splits)

lemma tracked_ok_feed: "tracked_ok f \<Longrightarrow> tracked_ok (feed f obs)"
  by (induction f obs rule: feed.induct) (auto intro: tracked_ok_ComputeNewValue)

lemma ComputeNewValue_all_older:
  "tracked_ok f \<Longrightarrow> is_windowed f \<Longrightarrow> \<not> outputs_running_total f \<Longrightarrow>
   all_retained_older f dayNum \<Longrightarrow>
   fst (ComputeNewValue f val dayNum timeMin) = fst (ComputeNewValue (Reset f) val dayNum timeMin)"
proof (induction f)
  case (CRangeValue a n q mx mn)
  then obtain mx1 mn1 where "PopOldValuesMinMax n dayNum q mx mn = ([], mx1, mn1)"
    and "mx1 = TDF_INVALID_VALUE \<or> mn1 = TDF_INVALID_VALUE"
    using PopOldValuesMinMax_older[of n dayNum q mx mn] by auto
  then show ?case by (simp add: Let_def)
next
  case (CThresholdValue a th n q mx mn)
  then obtain mx1 mn1 where "PopOldValuesMinMax n dayNum q mx mn = ([], mx1, mn1)"
    and "mx1 = TDF_INVALID_VALUE \<or> mn1 = TDF_INVALID_VALUE"
    using PopOldValuesMinMax_older[of n dayNum q mx mn] by auto
  then show ?case by (simp add: Let_def)
next
  case (CBollingerValue u n q t)
  then show ?case
    by (auto simp: Let_def split: prod.splits dest: PopOldValuesTotal_older)
next
  case (CRateCrossValue shortRate longRate)
  then show ?case by (simp add: split_beta)
next
  case (CIsStableValue RangeVar threshold)
  then show ?case by (simp add: split_beta)
qed (simp_all add: PopOldValues_older PopOldValuesLowest_older Let_def)

lemma Reset_ComputeNewValue: "Reset (snd (ComputeNewValue f val dayNum timeMin)) = Reset f"
  by (induction f) (auto simp: Let_def split: prod.splits)

lemma Reset_feed: "Reset (feed f obs) = Reset f"
  by (induction f obs rule: feed.induct) (auto simp: Reset_ComputeNewValue)

lemma is_windowed_Reset: "is_windowed (Reset f) = is_windowed f"
  by (induction f) simp_all

lemma is_windowed_ComputeNewValue:
  "is_windowed (snd (ComputeNewValue f val dayNum timeMin)) = is_windowed f"
  by (induction f) (auto simp: Let_def split: prod.splits)

lemma is_windowed_feed: "is_windowed (feed f obs) = is_windowed f"
  by (induction f obs rule: feed.induct) (auto simp: is_windowed_ComputeNewValue)

lemma outputs_running_total_Reset: "outputs_running_total (Reset f) = outputs_running_total f"
  by (induction f) simp_all

lemma outputs_running_total_ComputeNewValue:
  "outputs_running_total (snd (ComputeNewValue f val dayNum timeMin)) = outputs_running_total f"
  by (induction f) (auto simp: Let_def split: prod.splits)

lemma outputs_running_total_feed: "outputs_running_total (feed f obs) = outputs_running_total f"
  by (induction f obs rule: feed.induct) (auto simp: outputs_running_total_ComputeNewValue)

lemma Reset_Reset: "Reset (Reset f) = Reset f"
  by (induction f) simp_all

text \<open>
  The classes that compute their output from the retained observations. For every such
  object that was reset and then fed any sequence of observations: when the day of a new
  observation is more than the window size after the day of every retained observation,
  ComputeNewValue returns the output that the freshly reset object returns on that
  observation alone. This covers every windowed class but CSum and CRunningAvgValue, on
  values that are numbers (a NaN, which compares unequal to itself, is outside the model).
\<close>

lemma stale_window_output_of_window_classes:
  assumes "is_windowed f" and "\<not> outputs_running_total f"
    and "all_retained_older (feed (Reset f) obs) dayNum"
  shows "fst (ComputeNewValue (feed (Reset f) obs) val dayNum timeMin)
         = fst (ComputeNewValue (Reset f) val dayNum timeMin)"
proof -
  let ?s = "feed (Reset f) obs"
  have "tracked_ok ?s"
    by (simp add: tracked_ok_feed tracked_ok_Reset)
  moreover have "is_windowed ?s"
    using assms(1) by (simp add: is_windowed_feed is_windowed_Reset)
  moreover have "\<not> outputs_running_total ?s"
    using assms(2) by (simp add: outputs_running_total_feed outputs_running_total_Reset)
  ultimately have "fst (ComputeNewValue ?s val dayNum timeMin)
                   = fst (ComputeNewValue (Reset ?s) val dayNum timeMin)"
    using assms(3) by (rule ComputeNewValue_all_older)
  then show ?thesis
    by (simp add: Reset_feed Reset_Reset)
qed

lemma stale_window_of_delta_example:
  "all_retained_older (feed (Reset (CDeltaValue 7 [])) [(3, 0, 0), (4, 2, 0)]) 20
   \<and> fst (ComputeNewValue (feed (Reset (CDeltaValue 7 [])) [(3, 0, 0), (4, 2, 0)]) 5 20 0)
     = fst (ComputeNewValue (Reset (CDeltaValue 7 [])) 5 20 0)"
proof -
  have w: "is_windowed (CDeltaValue 7 [])" "\<not> outputs_running_total (CDeltaValue 7 [])"
    by simp_all
  have o: "all_retained_older (feed (Reset (CDeltaValue 7 [])) [(3, 0, 0), (4, 2, 0)]) 20"
    by (simp add: older_than_def NewEntry_def)
  from stale_window_output_of_window_classes [OF w o] o show ?thesis
    by blast
qed

lemmas fl_defs = fl_def fadd_def fsub_def fdiv_def float_exponent.simps py_round_def Let_def

text \<open>
  Claim C5 says that, for every sliding-window function, an observation that arrives more
  than the window size after every retained one is answered as a freshly reset instance
  answers it. A sum7 object fed 0.5, 0.5 and 0.6 on days 0, 1 and 2 and then 0.5 on day
  100 evicts the three old entries, whose subtraction from TotalValue leaves the rounding
  residue \<open>2\<^sup>-\<^sup>5\<^sup>3\<close>, and returns 0.5000000000000001, where the freshly reset object
  returns 0.5; a runavg7 object does the same. The header of the module describes runavg as
  \<^verbatim>\<open>the running average of all recent values within the past N days\<close>, which is 0.5 here, and
  Reset sets TotalValue to 0 for the empty deque, where the pruning loop leaves the residue.
\<close>

theorem stale_sum_keeps_rounding_residue:
  "all_retained_older (feed (Reset (CSum 7 [] 0)) residue_observations) 100
   \<and> fst (ComputeNewValue (feed (Reset (CSum 7 [] 0)) residue_observations) (1 / 2) 100 0)
     = 4503599627370497 / 9007199254740992
   \<and> fst (ComputeNewValue (Reset (CSum 7 [] 0)) (1 / 2) 100 0) = 1 / 2
   \<and> all_retained_older (feed (Reset (CRunningAvgValue 7 [] 0)) residue_observations) 100
   \<and> fst (ComputeNewValue (feed (Reset (CRunningAvgValue 7 [] 0)) residue_observations) (1 / 2) 100 0)
     = 4503599627370497 / 9007199254740992
   \<and> fst (ComputeNewValue (Reset (CRunningAvgValue 7 [] 0)) (1 / 2) 100 0) = 1 / 2"
  by (simp add: residue_observations_def fl_defs older_than_def NewEntry_def)

section \<open>Value resolution\<close>

lemmas GetNamedValueFromTimeline_defs =
  GetNamedValueFromTimeline_def py_index_def SameDayLookup_def TDF_INVALID_VALUE_def
  TDF_SMALLEST_VALID_VALUE_def NewEntry_def PositionCursor_def VARIABLE_RANGE_SIMPLE_def
  VARIABLE_RANGE_LAST_MATCH_def LastTimeLineIndex_def differs_from_invalid_def Let_def

text \<open>
  Claim C1 says that a reference naming a function returns the function's output. On
  \<open>example_timeline\<close>, at the second TimePoint, with the reference \<^verbatim>\<open>Cr.delta\<close> whose
  function object has already seen day 100: the function's output is 1 (2.0 minus 1.0),
  and GetNamedValueFromTimeline returns the raw snapshot value 2. After the function is
  applied the code does not return; it falls through to the range search, which
  overwrites \<^verbatim>\<open>result\<close> with the snapshot entry of the day.
\<close>

theorem function_output_overwritten_by_raw_value:
  "fst (ComputeNewValue (CDeltaValue 1 [NewEntry 1 100 0]) 2 101 0) = 1
   \<and> map_sum id fst
        (GetNamedValueFromTimeline example_timeline ''Cr'' 0 0 VARIABLE_RANGE_SIMPLE
           (Some (CDeltaValue 1 [NewEntry 1 100 0])) 1 (- 1))
     = Inr (True, Num 2, 101)"
  by (simp add: example_timeline_def GetNamedValueFromTimeline_defs)

text \<open>
  Claim C10. For every reference without a function whose start offset is greater than its
  stop offset (a backward search) and whose window starts on the day of the current
  TimePoint, GetNamedValueFromTimeline raises UnboundLocalError: none of the four
  positioning branches is taken, and the backward search reads the cursor.
\<close>

theorem backward_window_starting_today_raises:
  assumes "py_index ctl timeLineIndex = Inr timelineEntry"
    and "startOffsetRange > endOffsetRange"
    and "(if rangeOption = VARIABLE_RANGE_LAST_MATCH then prevUsedRangeDay
          else TimeDays timelineEntry) + startOffsetRange = TimeDays timelineEntry"
  shows "GetNamedValueFromTimeline ctl valueName startOffsetRange endOffsetRange rangeOption None
           timeLineIndex prevUsedRangeDay = Inl UnboundLocalError"
proof -
  from assms(2) have sdl: "SameDayLookup timelineEntry valueName startOffsetRange endOffsetRange None
             = Inr (FallThrough (Num TDF_INVALID_VALUE), None)"
    by (auto simp: SameDayLookup_def Let_def)
  let ?ref = "if rangeOption = VARIABLE_RANGE_LAST_MATCH then prevUsedRangeDay
              else TimeDays timelineEntry"
  from assms(2) have bwd: "?ref + startOffsetRange > ?ref + endOffsetRange"
    by simp
  have "PositionCursor ctl (\<not> ?ref + startOffsetRange > ?ref + endOffsetRange)
          (?ref + startOffsetRange) (TimeDays timelineEntry) timeLineIndex = Inr None"
    using bwd assms(3) by (simp add: PositionCursor_def)
  with assms(1) sdl show ?thesis
    by (simp add: GetNamedValueFromTimeline_def Let_def)
qed

theorem backward_window_starting_today_raises_witness:
  "py_index example_timeline 1 = Inr \<lparr>TimeDays = 101, TID = 1, data = [''Cr'' \<mapsto> Num 2]\<rparr>
   \<and> (0::int) > - 3
   \<and> GetNamedValueFromTimeline example_timeline ''Cr'' 0 (- 3) VARIABLE_RANGE_SIMPLE None 1 (- 1)
     = Inl UnboundLocalError"
proof -
  let ?e = "\<lparr>TimeDays = 101, TID = 1, data = [''Cr'' \<mapsto> Num (2::real)]\<rparr>"
  have i: "py_index example_timeline 1 = Inr ?e"
    by (simp add: py_index_def example_timeline_def)
  have o: "(0::int) > - 3"
    by simp
  have d: "(if VARIABLE_RANGE_SIMPLE = VARIABLE_RANGE_LAST_MATCH then - 1 else TimeDays ?e) + 0
           = TimeDays ?e"
    by (simp add: VARIABLE_RANGE_SIMPLE_def VARIABLE_RANGE_LAST_MATCH_def)
  from backward_window_starting_today_raises [OF i o d, of "''Cr''"] i o show ?thesis
    by blast
qed

section \<open>The relative range\<close>

text \<open>
  Claim C7 says that the relative range is 0 when the window minimum is 0. A relrange7
  object fed 0 on day 0 and 5 on day 1 holds the window minimum 0 and maximum 5 and
  returns 5, the absolute range: the guard \<^verbatim>\<open>(not self.fAbsolute) and (self.MinValue != 0)\<close>
  skips the block that holds \<^verbatim>\<open>if (self.MinValue == 0): result = 0\<close>.
\<close>

theorem relative_range_with_zero_minimum_returns_absolute_range:
  "ComputeNewValue (CRangeValue False 7 [] TDF_INVALID_VALUE TDF_INVALID_VALUE) 0 0 0
     = (TDF_INVALID_VALUE, CRangeValue False 7 [NewEntry 0 0 0] 0 0)
   \<and> fst (ComputeNewValue (CRangeValue False 7 [NewEntry 0 0 0] 0 0) 5 1 0) = 5"
  by (simp add: TDF_INVALID_VALUE_def NewEntry_def)

section \<open>The acute-state flag\<close>

lemmas ReversePass_defs =
  ReversePass_def CalculateAllDerivedValuesREVERSEPass_def ReverseBaselineCr_def
  ReverseBaselineGFR_def ReverseInAKI_def get_or_invalid_def as_number_def
  TDF_INVALID_VALUE_def TDF_SMALLEST_VALID_VALUE_def Let_def

text \<open>
  Claim C2 says that in the scenario of creatinine 1.0, 2.9, 1.4 on days 100, 103, 110 the
  reverse pass sets InAKI to 1 on day 103. On \<open>aki_timeline\<close> the reverse pass leaves the
  baseline at 1.0, 1.0 and 1.4 and stores InAKI = 0 on all three days, day 103 included:
  the InAKI block reads the current value under the key \<^verbatim>\<open>'currentCr'\<close>, which no snapshot
  holds, so the comparison with the baseline is never made.
\<close>

theorem reverse_pass_never_sets_InAKI:
  "map_sum id (map (\<lambda>e. (TimeDays e, data e ''InAKI'', data e ''BaselineCr'')))
     (ReversePass [''InAKI'', ''Cr'', ''BaselineCr''] aki_timeline)
   = Inr [(100, Some (Num 0), Some (Num 1)),
          (103, Some (Num 0), Some (Num 1)),
          (110, Some (Num 0), Some (Num (14 / 10)))]"
  by (simp add: aki_timeline_def ReversePass_defs)

section \<open>The filter\<close>

text \<open>
  Claim C8 says that the filter is true exactly when every relational test holds. For the
  Boolean variable InHospital with snapshot value 1, the predicate \<^verbatim>\<open>InHospital .NEQ. 1\<close>
  does not hold, and CheckIfCurrentTimeMeetsCriteria returns True: the \<^verbatim>\<open>.EQ.\<close> branch tests
  the Boolean kind, the \<^verbatim>\<open>.NEQ.\<close> branch has no test for it.
\<close>

theorem filter_ignores_not_equal_on_boolean:
  "CheckIfCurrentTimeMeetsCriteria g_LabValueInfo_rows [''.NEQ.''] [''InHospital''] [1]
     \<lparr>TimeDays = 5, TID = 0, data = [''InHospital'' \<mapsto> Num 1]\<rparr> = Inr True
   \<and> \<not> relational_test_spec TDF_DATA_TYPE_BOOL ''.NEQ.'' 1 1"
  by (simp add: CheckIfCurrentTimeMeetsCriteria_def CheckOneCriterion_def g_LabValueInfo_rows_def
        py_index_def TDF_INVALID_VALUE_def TDF_SMALLEST_VALID_VALUE_def relational_test_spec_def
        relation_holds_def py_int_def Let_def)

section \<open>Partitioned scanning\<close>

text \<open>
  Claim C3 says that scanning the partitions of a file and concatenating the results gives
  the timelines of one scan of the whole file. \<open>example_file\<close>, cut by
  CreateFilePartitionList into partitions of 11 bytes, has a partition that begins at the
  \<^verbatim>\<open><\<close> of the header line \<^verbatim>\<open><TLLocationIndex>\<close>. FindAllTimelinesInPartition takes the rest of
  that line for an opening tag, so the partitions yield two fragments, (11, 123) and
  (70, 123), where the scan of the whole file yields the one timeline (70, 123).
\<close>

theorem partition_scan_differs_from_whole_scan:
  "partitions_cover 0 (length example_file) (CreateFilePartitionList example_file 11)
   \<and> concat (map (\<lambda>(startPartition, stopPartition).
                    fst (FindAllTimelinesInPartition example_file startPartition (int stopPartition)))
               (CreateFilePartitionList example_file 11))
     = [(11, 123), (70, 123)]
   \<and> fst (FindAllTimelinesInPartition example_file 0 (int (length example_file))) = [(70, 123)]"
  by code_simp

text \<open>
  ReadNextTimelineXMLStrImpl strips the line before it tests for the opening tag, so a
  partition that begins anywhere in the indentation of that header line starts a fragment
  there as well.
\<close>

lemma ReadNextTimelineXMLStrImpl_starts_in_header:
  "fst (ReadNextTimelineXMLStrImpl example_file 8 (int (length example_file)))
   = (True, False, 8, 123)"
  by code_simp

section \<open>Stage onset dates\<close>

lemma foldl_track_onset:
  assumes "\<forall>s \<in> set scores. fst s \<ge> 0"
  shows "foldl (track_onset criterion) TDF_INVALID_VALUE scores = onset_spec criterion scores"
  using assms
proof (induction scores rule: rev_induct)
  case Nil
  then show ?case by (simp add: onset_spec_def)
next
  case (snoc s scores)
  obtain day x where s: "s = (day, x)" by (cases s)
  from snoc.prems have days: "\<forall>s \<in> set scores. fst s \<ge> 0" and day: "day \<ge> 0"
    by (auto simp: s)
  from snoc.IH[OF days]
  have "foldl (track_onset criterion) TDF_INVALID_VALUE scores = onset_spec criterion scores" .
  then have step: "foldl (track_onset criterion) TDF_INVALID_VALUE (scores @ [s])
                   = track_onset criterion (onset_spec criterion scores) s"
    by simp
  show ?case
  proof (cases "criterion x")
    case False
    then have "onset_spec criterion (scores @ [s]) = TDF_INVALID_VALUE"
      by (simp add: s onset_spec_def)
    with False show ?thesis
      unfolding step by (simp add: s track_onset_def)
  next
    case True
    let ?run = "rev (takeWhile (\<lambda>(day, x). criterion x) (rev scores))"
    have run: "rev (takeWhile (\<lambda>(day, x). criterion x) (rev (scores @ [s]))) = ?run @ [s]"
      using True by (simp add: s)
    show ?thesis
    proof (cases ?run)
      case Nil
      then have "onset_spec criterion scores = TDF_INVALID_VALUE"
        by (simp add: onset_spec_def)
      moreover have "onset_spec criterion (scores @ [s]) = day"
        unfolding onset_spec_def run using Nil by (simp add: s)
      ultimately show ?thesis
        using True unfolding step
        by (simp add: s track_onset_def SetIfUnset_def TDF_INVALID_VALUE_def)
    next
      case (Cons r rs)
      obtain d1 x1 where r: "r = (d1, x1)" by (cases r)
      have "r \<in> set ?run" using Cons by simp
      then have "r \<in> set scores"
        by (auto dest: set_takeWhileD)
      with days have "d1 \<ge> 0" by (auto simp: r)
      moreover have "onset_spec criterion scores = d1"
        by (simp add: onset_spec_def Cons r)
      moreover have "onset_spec criterion (scores @ [s]) = d1"
        unfolding onset_spec_def run using Cons by (simp add: r)
      ultimately show ?thesis
        using True unfolding step by (simp add: s track_onset_def SetIfUnset_def)
    qed
  qed
qed

lemma RecordGFRMilestones_dates:
  assumes "\<not> g < TDF_SMALLEST_VALID_VALUE"
  shows "StartCKD5Date (RecordGFRMilestones s g day) = track_onset (\<lambda>g. g < 15) (StartCKD5Date s) (day, g)"
    and "StartCKD4Date (RecordGFRMilestones s g day) = track_onset (\<lambda>g. g < 30) (StartCKD4Date s) (day, g)"
    and "StartCKD3bDate (RecordGFRMilestones s g day) = track_onset (\<lambda>g. g < 45) (StartCKD3bDate s) (day, g)"
    and "StartCKD3aDate (RecordGFRMilestones s g day) = track_onset (\<lambda>g. g < 60) (StartCKD3aDate s) (day, g)"
  using assms by (auto simp: RecordGFRMilestones_def track_onset_def)

lemma RecordGFRMilestones_MELD [simp]:
  "StartMELD40Date (RecordGFRMilestones s g day) = StartMELD40Date s"
  "StartMELD30Date (RecordGFRMilestones s g day) = StartMELD30Date s"
  "StartMELD20Date (RecordGFRMilestones s g day) = StartMELD20Date s"
  "StartMELD10Date (RecordGFRMilestones s g day) = StartMELD10Date s"
  by (auto simp: RecordGFRMilestones_def)

lemma RecordGFRMilestones_invalid [simp]:
  "g < TDF_SMALLEST_VALID_VALUE \<Longrightarrow> RecordGFRMilestones s g day = s"
  by (simp add: RecordGFRMilestones_def)

lemma RecordMELDMilestones_dates:
  assumes "\<not> m < TDF_SMALLEST_VALID_VALUE"
  shows "StartMELD40Date (RecordMELDMilestones s m day) = track_onset (\<lambda>m. m \<ge> 40) (StartMELD40Date s) (day, m)"
    and "StartMELD30Date (RecordMELDMilestones s m day) = track_onset (\<lambda>m. m \<ge> 30) (StartMELD30Date s) (day, m)"
    and "StartMELD20Date (RecordMELDMilestones s m day) = track_onset (\<lambda>m. m \<ge> 20) (StartMELD20Date s) (day, m)"
    and "StartMELD10Date (RecordMELDMilestones s m day) = track_onset (\<lambda>m. m \<ge> 10) (StartMELD10Date s) (day, m)"
  using assms by (auto simp: RecordMELDMilestones_def track_onset_def)

lemma RecordMELDMilestones_GFR [simp]:
  "StartCKD5Date (RecordMELDMilestones s m day) = StartCKD5Date s"
  "StartCKD4Date (RecordMELDMilestones s m day) = StartCKD4Date s"
  "StartCKD3bDate (RecordMELDMilestones s m day) = StartCKD3bDate s"
  "StartCKD3aDate (RecordMELDMilestones s m day) = StartCKD3aDate s"
  by (auto simp: RecordMELDMilestones_def)

lemma RecordMELDMilestones_invalid [simp]:
  "m < TDF_SMALLEST_VALID_VALUE \<Longrightarrow> RecordMELDMilestones s m day = s"
  by (simp add: RecordMELDMilestones_def)

lemma valid_scores_Cons: "valid_scores name (e # ctl) = scores_of name e @ valid_scores name ctl"
  by (simp add: valid_scores_def scores_of_def)

lemma valid_scores_Nil [simp]: "valid_scores name [] = []"
  by (simp add: valid_scores_def)

lemma RecordTimeMilestonesOnForwardPass_dates:
  assumes "RecordTimeMilestonesOnForwardPass s (data e) (TimeDays e) = Inr s'"
  shows "dates_follow s s' (scores_of ''GFR'' e) (scores_of ''MELD'' e)"
  using assms
  by (auto simp: RecordTimeMilestonesOnForwardPass_def dates_follow_def scores_of_def
        RecordGFRMilestones_dates RecordMELDMilestones_dates
      split: option.splits pyval.splits sum.splits if_splits)

lemma SecondForwardPass_dates:
  "SecondForwardPass s ctl = Inr s' \<Longrightarrow>
   dates_follow s s' (valid_scores ''GFR'' ctl) (valid_scores ''MELD'' ctl)"
proof (induction ctl arbitrary: s)
  case Nil
  then show ?case by (simp add: dates_follow_def)
next
  case (Cons e ctl)
  then obtain s1 where s1: "RecordTimeMilestonesOnForwardPass s (data e) (TimeDays e) = Inr s1"
    and rest: "SecondForwardPass s1 ctl = Inr s'"
    by (auto split: sum.splits)
  from RecordTimeMilestonesOnForwardPass_dates[OF s1] Cons.IH[OF rest]
  show ?case
    by (simp add: dates_follow_def valid_scores_Cons)
qed

lemma valid_scores_days:
  "\<forall>e \<in> set ctl. TimeDays e \<ge> 0 \<Longrightarrow> \<forall>s \<in> set (valid_scores name ctl). fst s \<ge> 0"
  by (auto simp: valid_scores_def split: option.splits pyval.splits if_splits)

lemma SecondForwardPass_returns:
  "\<forall>e \<in> set ctl. numeric_or_absent (data e ''GFR'') \<and> numeric_or_absent (data e ''MELD'') \<Longrightarrow>
   \<exists>ms. SecondForwardPass s ctl = Inr ms"
proof (induction ctl arbitrary: s)
  case Nil
  then show ?case by simp
next
  case (Cons e ctl)
  then have "\<exists>s1. RecordTimeMilestonesOnForwardPass s (data e) (TimeDays e) = Inr s1"
    by (auto simp: RecordTimeMilestonesOnForwardPass_def numeric_or_absent_def
             split: option.splits pyval.splits)
  then obtain s1 where "RecordTimeMilestonesOnForwardPass s (data e) (TimeDays e) = Inr s1" ..
  with Cons show ?case by simp
qed

text \<open>
  Claim C6: for every sequence of per-day GFR and MELD scores that the second forward sweep
  processes (days not negative, scores numeric), the sweep completes, and each of the eight
  onset dates it leaves is the first day from which the criterion of the stage is met by
  every valid score up to the end of the record, and "no onset" (the sentinel) when the
  last valid score does not meet it. As this holds for every record, hence for every prefix
  of one, a return to a better stage clears the date and a later worsening sets it to the
  later day.
\<close>

theorem stage_onset_is_start_of_final_run:
  assumes "scored_timeline ctl"
  shows "\<exists>ms. SecondForwardPass milestones_init ctl = Inr ms
       \<and> StartCKD5Date ms = onset_spec (\<lambda>g. g < 15) (valid_scores ''GFR'' ctl)
       \<and> StartCKD4Date ms = onset_spec (\<lambda>g. g < 30) (valid_scores ''GFR'' ctl)
       \<and> StartCKD3bDate ms = onset_spec (\<lambda>g. g < 45) (valid_scores ''GFR'' ctl)
       \<and> StartCKD3aDate ms = onset_spec (\<lambda>g. g < 60) (valid_scores ''GFR'' ctl)
       \<and> StartMELD40Date ms = onset_spec (\<lambda>m. m \<ge> 40) (valid_scores ''MELD'' ctl)
       \<and> StartMELD30Date ms = onset_spec (\<lambda>m. m \<ge> 30) (valid_scores ''MELD'' ctl)
       \<and> StartMELD20Date ms = onset_spec (\<lambda>m. m \<ge> 20) (valid_scores ''MELD'' ctl)
       \<and> StartMELD10Date ms = onset_spec (\<lambda>m. m \<ge> 10) (valid_scores ''MELD'' ctl)"
proof -
  from assms have days: "\<forall>e \<in> set ctl. TimeDays e \<ge> 0"
    and num: "\<forall>e \<in> set ctl. numeric_or_absent (data e ''GFR'') \<and> numeric_or_absent (data e ''MELD'')"
    by (simp_all add: scored_timeline_def list_all_iff)
  from SecondForwardPass_returns[OF num]
  obtain ms where ms: "SecondForwardPass milestones_init ctl = Inr ms" ..
  from SecondForwardPass_dates[OF ms]
  have "dates_follow milestones_init ms (valid_scores ''GFR'' ctl) (valid_scores ''MELD'' ctl)" .
  then show ?thesis
    using ms
    by (simp add: dates_follow_def milestones_init_def foldl_track_onset valid_scores_days[OF days])
qed

lemma scored_timeline_gfr_timeline: "scored_timeline (take n gfr_timeline)"
  by (auto simp: scored_timeline_def gfr_timeline_def numeric_or_absent_def list_all_iff
           dest!: in_set_takeD)

lemma valid_scores_gfr_timeline:
  "valid_scores ''GFR'' (take 2 gfr_timeline) = [(10, 50), (20, 25)]"
  "valid_scores ''GFR'' (take 3 gfr_timeline) = [(10, 50), (20, 25), (30, 50)]"
  "valid_scores ''GFR'' (take 4 gfr_timeline) = [(10, 50), (20, 25), (30, 50), (40, 25)]"
  "valid_scores ''GFR'' gfr_timeline = [(10, 50), (20, 25), (30, 50), (40, 25), (50, 20)]"
  by (simp_all add: valid_scores_def gfr_timeline_def TDF_SMALLEST_VALID_VALUE_def
        numeral_2_eq_2 numeral_3_eq_3 eval_nat_numeral)

text \<open>
  On \<open>gfr_timeline\<close> the date of stage 4 is day 20 after two TimePoints, cleared after the
  third, day 40 after the fourth, and day 40 at the end of the record.
\<close>

theorem stage_onset_is_start_of_final_run_witness:
  "scored_timeline gfr_timeline
   \<and> (\<exists>ms. SecondForwardPass milestones_init (take 2 gfr_timeline) = Inr ms \<and> StartCKD4Date ms = 20)
   \<and> (\<exists>ms. SecondForwardPass milestones_init (take 3 gfr_timeline) = Inr ms
            \<and> StartCKD4Date ms = TDF_INVALID_VALUE)
   \<and> (\<exists>ms. SecondForwardPass milestones_init (take 4 gfr_timeline) = Inr ms \<and> StartCKD4Date ms = 40)
   \<and> (\<exists>ms. SecondForwardPass milestones_init gfr_timeline = Inr ms
            \<and> StartCKD4Date ms = 40 \<and> StartCKD3aDate ms = 10
            \<and> StartCKD5Date ms = TDF_INVALID_VALUE)"
proof -
  have full: "scored_timeline gfr_timeline"
    using scored_timeline_gfr_timeline[of 5] by (simp add: gfr_timeline_def)
  from stage_onset_is_start_of_final_run[OF scored_timeline_gfr_timeline[of 2]]
  obtain m2 where "SecondForwardPass milestones_init (take 2 gfr_timeline) = Inr m2"
    "StartCKD4Date m2 = onset_spec (\<lambda>g. g < 30) (valid_scores ''GFR'' (take 2 gfr_timeline))"
    by blast
  then have p2: "\<exists>ms. SecondForwardPass milestones_init (take 2 gfr_timeline) = Inr ms
                     \<and> StartCKD4Date ms = 20"
    by (simp add: valid_scores_gfr_timeline onset_spec_def)
  from stage_onset_is_start_of_final_run[OF scored_timeline_gfr_timeline[of 3]]
  obtain m3 where "SecondForwardPass milestones_init (take 3 gfr_timeline) = Inr m3"
    "StartCKD4Date m3 = onset_spec (\<lambda>g. g < 30) (valid_scores ''GFR'' (take 3 gfr_timeline))"
    by blast
  then have p3: "\<exists>ms. SecondForwardPass milestones_init (take 3 gfr_timeline) = Inr ms
                     \<and> StartCKD4Date ms = TDF_INVALID_VALUE"
    by (simp add: valid_scores_gfr_timeline onset_spec_def)
  from stage_onset_is_start_of_final_run[OF scored_timeline_gfr_timeline[of 4]]
  obtain m4 where "SecondForwardPass milestones_init (take 4 gfr_timeline) = Inr m4"
    "StartCKD4Date m4 = onset_spec (\<lambda>g. g < 30) (valid_scores ''GFR'' (take 4 gfr_timeline))"
    by blast
  then have p4: "\<exists>ms. SecondForwardPass milestones_init (take 4 gfr_timeline) = Inr ms
                     \<and> StartCKD4Date ms = 40"
    by (simp add: valid_scores_gfr_timeline onset_spec_def)
  from stage_onset_is_start_of_final_run[OF full]
  obtain m5 where "SecondForwardPass milestones_init gfr_timeline = Inr m5"
    "StartCKD4Date m5 = onset_spec (\<lambda>g. g < 30) (valid_scores ''GFR'' gfr_timeline)"
    "StartCKD3aDate m5 = onset_spec (\<lambda>g. g < 60) (valid_scores ''GFR'' gfr_timeline)"
    "StartCKD5Date m5 = onset_spec (\<lambda>g. g < 15) (valid_scores ''GFR'' gfr_timeline)"
    by blast
  then have p5: "\<exists>ms. SecondForwardPass milestones_init gfr_timeline = Inr ms
            \<and> StartCKD4Date ms = 40 \<and> StartCKD3aDate ms = 10
            \<and> StartCKD5Date ms = TDF_INVALID_VALUE"
    by (simp add: valid_scores_gfr_timeline onset_spec_def)
  from full p2 p3 p4 p5 show ?thesis by blast
qed

section \<open>Baseline correction\<close>

lemma ReverseBaselineGFR_keeps:
  "ReverseBaselineGFR vars d = Inr d' \<Longrightarrow> key \<noteq> ''BaselineGFR'' \<Longrightarrow> d' key = d key"
  by (auto simp: ReverseBaselineGFR_def split: if_splits sum.splits)

lemma ReverseInAKI_keeps:
  "ReverseInAKI vars d day = Inr d' \<Longrightarrow> key \<noteq> ''InAKI'' \<Longrightarrow> key \<noteq> ''NextAKIDate'' \<Longrightarrow>
   key \<noteq> ''NextCrAtBaselineDate'' \<Longrightarrow> d' key = d key"
  by (auto simp: ReverseInAKI_def Let_def split: if_splits sum.splits)

lemma ReverseBaselineCr_step:
  assumes "''BaselineCr'' \<in> set vars"
    and "ReverseBaselineCr vars F d = Inr (F', d')"
    and "F \<noteq> TDF_SMALLEST_VALID_VALUE"
  shows "F' \<noteq> TDF_SMALLEST_VALID_VALUE"
    and "F > TDF_SMALLEST_VALID_VALUE \<Longrightarrow> F' > TDF_SMALLEST_VALID_VALUE \<and> F' \<le> F"
    and "d ''Cr'' = Some (Num c) \<Longrightarrow> c > TDF_SMALLEST_VALID_VALUE \<Longrightarrow>
         F' > TDF_SMALLEST_VALID_VALUE \<and> F' \<le> c"
    and "d' ''BaselineCr'' = Some (Num b) \<Longrightarrow> F' > TDF_SMALLEST_VALID_VALUE \<Longrightarrow> b \<le> F'"
    and "d' ''Cr'' = d ''Cr''"
  using assms
  by (auto simp: ReverseBaselineCr_def Let_def get_or_invalid_def as_number_def
           split: if_splits sum.splits option.splits pyval.splits)

lemma CalculateAllDerivedValuesREVERSEPass_step:
  assumes "''BaselineCr'' \<in> set vars"
    and "CalculateAllDerivedValuesREVERSEPass vars F d day = Inr (F', d')"
    and "F \<noteq> TDF_SMALLEST_VALID_VALUE"
  shows "F' \<noteq> TDF_SMALLEST_VALID_VALUE"
    and "F > TDF_SMALLEST_VALID_VALUE \<Longrightarrow> F' > TDF_SMALLEST_VALID_VALUE \<and> F' \<le> F"
    and "d ''Cr'' = Some (Num c) \<Longrightarrow> c > TDF_SMALLEST_VALID_VALUE \<Longrightarrow>
         F' > TDF_SMALLEST_VALID_VALUE \<and> F' \<le> c"
    and "d' ''BaselineCr'' = Some (Num b) \<Longrightarrow> F' > TDF_SMALLEST_VALID_VALUE \<Longrightarrow> b \<le> F'"
    and "d' ''Cr'' = d ''Cr''"
proof -
  from assms(2) obtain d1 d2 where
    s1: "ReverseBaselineCr vars F d = Inr (F', d1)" and
    s2: "ReverseBaselineGFR vars d1 = Inr d2" and
    s3: "ReverseInAKI vars d2 day = Inr d'"
    by (auto simp: CalculateAllDerivedValuesREVERSEPass_def split: sum.splits prod.splits)
  have b: "d' ''BaselineCr'' = d1 ''BaselineCr''"
    using ReverseBaselineGFR_keeps[OF s2, of "''BaselineCr''"]
          ReverseInAKI_keeps[OF s3, of "''BaselineCr''"] by simp
  have c: "d' ''Cr'' = d1 ''Cr''"
    using ReverseBaselineGFR_keeps[OF s2, of "''Cr''"] ReverseInAKI_keeps[OF s3, of "''Cr''"]
    by simp
  note st = ReverseBaselineCr_step[OF assms(1) s1 assms(3)]
  show "F' \<noteq> TDF_SMALLEST_VALID_VALUE" by (rule st(1))
  show "F > TDF_SMALLEST_VALID_VALUE \<Longrightarrow> F' > TDF_SMALLEST_VALID_VALUE \<and> F' \<le> F" by (rule st(2))
  show "d ''Cr'' = Some (Num c) \<Longrightarrow> c > TDF_SMALLEST_VALID_VALUE \<Longrightarrow>
         F' > TDF_SMALLEST_VALID_VALUE \<and> F' \<le> c" by (rule st(3))
  show "d' ''BaselineCr'' = Some (Num b) \<Longrightarrow> F' > TDF_SMALLEST_VALID_VALUE \<Longrightarrow> b \<le> F'"
    using st(4) b by simp
  show "d' ''Cr'' = d ''Cr''" using st(5) c by simp
qed

lemma ReversePassFrom_bounded:
  assumes "''BaselineCr'' \<in> set vars"
  shows "ReversePassFrom vars F es = Inr (F', es') \<Longrightarrow> F \<noteq> TDF_SMALLEST_VALID_VALUE \<Longrightarrow>
         baseline_bounded F es es'"
proof (induction es arbitrary: F F' es')
  case Nil
  then show ?case by (simp add: baseline_bounded_def)
next
  case (Cons e rest)
  from Cons.prems(1) obtain F1 d rest' where
    step: "CalculateAllDerivedValuesREVERSEPass vars F (data e) (TimeDays e) = Inr (F1, d)" and
    rec: "ReversePassFrom vars F1 rest = Inr (F', rest')" and
    es': "es' = e\<lparr>data := d\<rparr> # rest'"
    by (auto split: sum.splits prod.splits)
  note st = CalculateAllDerivedValuesREVERSEPass_step[OF assms step Cons.prems(2)]
  from Cons.IH[OF rec st(1)] have IH: "baseline_bounded F1 rest rest'" .
  show ?case
    unfolding baseline_bounded_def
  proof (intro conjI allI impI)
    show "length es' = length (e # rest)"
      using IH by (simp add: es' baseline_bounded_def)
  next
    fix i assume "i < length (e # rest)"
    then show "data (es' ! i) ''Cr'' = data ((e # rest) ! i) ''Cr''"
      using IH st(5) by (cases i) (auto simp: es' baseline_bounded_def)
  next
    fix i b
    assume i: "i < length (e # rest)" and b: "data (es' ! i) ''BaselineCr'' = Some (Num b)"
      and F: "F > TDF_SMALLEST_VALID_VALUE"
    show "b \<le> F"
    proof (cases i)
      case 0
      with b have "d ''BaselineCr'' = Some (Num b)" by (simp add: es')
      with st(2)[OF F] st(4)[of b] show ?thesis by auto
    next
      case (Suc i')
      with b i have "data (rest' ! i') ''BaselineCr'' = Some (Num b)" "i' < length rest"
        by (simp_all add: es')
      with IH st(2)[OF F] show ?thesis
        by (auto simp: baseline_bounded_def)
    qed
  next
    fix i b j c
    assume i: "i < length (e # rest)" and b: "data (es' ! i) ''BaselineCr'' = Some (Num b)"
      and j: "j \<le> i" and c: "data ((e # rest) ! j) ''Cr'' = Some (Num c)"
      and v: "c > TDF_SMALLEST_VALID_VALUE"
    show "b \<le> c"
    proof (cases j)
      case 0
      with c have c0: "data e ''Cr'' = Some (Num c)" by simp
      note f1 = st(3)[OF c0 v]
      show ?thesis
      proof (cases i)
        case 0
        with b have "d ''BaselineCr'' = Some (Num b)" by (simp add: es')
        with f1 st(4)[of b] show ?thesis by auto
      next
        case (Suc i')
        with b i have "data (rest' ! i') ''BaselineCr'' = Some (Num b)" "i' < length rest"
          by (simp_all add: es')
        with IH f1 show ?thesis
          by (auto simp: baseline_bounded_def)
      qed
    next
      case (Suc j')
      with j obtain i' where i': "i = Suc i'" "j' \<le> i'" by (cases i) auto
      with b i c Suc have "data (rest' ! i') ''BaselineCr'' = Some (Num b)" "i' < length rest"
        "data (rest ! j') ''Cr'' = Some (Num c)"
        by (simp_all add: es')
      with IH i'(2) v show ?thesis
        by (auto simp: baseline_bounded_def)
    qed
  qed
qed

text \<open>
  Claim C4: when BaselineCr is among the requested variables and the reverse pass
  completes, the baseline stored at a TimePoint \<open>k\<close> is at most every valid creatinine
  value stored at a TimePoint \<open>j\<close> at or after \<open>k\<close>, hence at most their minimum. The
  creatinine values are those of the snapshots, as ProcessDataNodeForwardImpl stored them
  (clipped to the range of the variable).
\<close>

theorem baseline_never_exceeds_later_creatinine:
  assumes "''BaselineCr'' \<in> set vars"
    and "ReversePass vars ctl = Inr ctl'"
    and "k \<le> j" and "j < length ctl'"
    and "data (ctl' ! j) ''Cr'' = Some (Num c)"
    and "c > TDF_SMALLEST_VALID_VALUE"
    and "data (ctl' ! k) ''BaselineCr'' = Some (Num b)"
  shows "b \<le> c"
proof -
  from assms(2) obtain F' es' where
    r: "ReversePassFrom vars TDF_INVALID_VALUE (rev ctl) = Inr (F', es')" and
    ctl': "ctl' = rev es'"
    by (auto simp: ReversePass_def split: sum.splits prod.splits)
  have "(TDF_INVALID_VALUE :: real) \<noteq> TDF_SMALLEST_VALID_VALUE"
    by (simp add: TDF_INVALID_VALUE_def TDF_SMALLEST_VALID_VALUE_def)
  from ReversePassFrom_bounded[OF assms(1) r this]
  have bb: "baseline_bounded TDF_INVALID_VALUE (rev ctl) es'" .
  then have len: "length es' = length ctl"
    by (simp add: baseline_bounded_def)
  let ?n = "length ctl"
  from assms(3,4) len ctl' have kj: "k < ?n" "j < ?n" by simp_all
  let ?i = "?n - Suc k" and ?j = "?n - Suc j"
  have i: "?i < length (rev ctl)" and ji: "?j \<le> ?i"
    using kj assms(3) by simp_all
  have bk: "data (es' ! ?i) ''BaselineCr'' = Some (Num b)"
    using assms(7) kj len by (simp add: ctl' rev_nth)
  have "data (es' ! ?j) ''Cr'' = Some (Num c)"
    using assms(5) kj len by (simp add: ctl' rev_nth)
  moreover have "?j < length (rev ctl)" using kj by simp
  ultimately have cj: "data (rev ctl ! ?j) ''Cr'' = Some (Num c)"
    using bb by (simp add: baseline_bounded_def)
  from bb i bk ji cj assms(6) show ?thesis
    unfolding baseline_bounded_def by blast
qed

text \<open>
  On \<open>recovering_timeline\<close> the reverse pass lowers the baselines of days 100 and 103 to
  the 1.4 of day 110.
\<close>

theorem baseline_never_exceeds_later_creatinine_witness:
  "''BaselineCr'' \<in> set [''BaselineCr'', ''Cr'']
   \<and> map_sum id (map (\<lambda>e. (data e ''Cr'', data e ''BaselineCr'')))
       (ReversePass [''BaselineCr'', ''Cr''] recovering_timeline)
     = Inr [(Some (Num 2), Some (Num (14 / 10))),
            (Some (Num (29 / 10)), Some (Num (14 / 10))),
            (Some (Num (14 / 10)), Some (Num (14 / 10)))]
   \<and> (14 / 10 :: real) \<le> 29 / 10"
proof -
  obtain ctl' where r: "ReversePass [''BaselineCr'', ''Cr''] recovering_timeline = Inr ctl'"
    and c: "data (ctl' ! 1) ''Cr'' = Some (Num (29 / 10))"
    and b: "data (ctl' ! 0) ''BaselineCr'' = Some (Num (14 / 10))"
    and len: "length ctl' = 3"
    and all: "map (\<lambda>e. (data e ''Cr'', data e ''BaselineCr'')) ctl'
              = [(Some (Num 2), Some (Num (14 / 10))),
                 (Some (Num (29 / 10)), Some (Num (14 / 10))),
                 (Some (Num (14 / 10)), Some (Num (14 / 10)))]"
    by (simp add: recovering_timeline_def ReversePass_defs)
  have "(14 / 10 :: real) \<le> 29 / 10"
    using baseline_never_exceeds_later_creatinine[of "[''BaselineCr'', ''Cr'']" recovering_timeline ctl' 0 1 "29 / 10" "14 / 10"]
      r c b len
    by (simp add: TDF_SMALLEST_VALID_VALUE_def)
  with r all show ?thesis by simp
qed

section \<open>The trailing window of the baseline\<close>

lemma TrimQueue_no_trim:
  "\<not> timeInDays - OldestDay self > maxHistoryInDays self \<Longrightarrow>
   TrimQueue self timeInDays f = Inr (self, f)"
  by simp

lemma TrimQueue_KeyError:
  assumes "timeInDays - OldestDay self > maxHistoryInDays self"
    and "ValueQueue self = e1 # e2 # rest"
    and "e1 ''v'' \<noteq> None" and "e2 ''d'' \<noteq> None" and "e2 ''h'' = None"
  shows "TrimQueue self timeInDays f = Inl KeyError"
  using assms by (subst TrimQueue.simps) auto

lemma AddNewValue_first:
  assumes "AddNewValue (CTimeSeries_init maxHistory) val timeInDays timeMin = Inr self"
    and "\<not> (timeInDays = - 1 \<and> timeMin = - 1)"
  shows "series_ok self \<and> maxHistoryInDays self = maxHistory"
  using assms
  by (auto simp: AddNewValue_def CTimeSeries_init_def series_ok_def Let_def split: if_splits)

lemma AddNewValue_series_ok:
  assumes "series_ok self"
  shows "(timeInDays - OldestDay self > maxHistoryInDays self \<longrightarrow>
            AddNewValue self val timeInDays timeMin = Inl KeyError)
         \<and> (\<forall>self'. AddNewValue self val timeInDays timeMin = Inr self' \<longrightarrow>
               series_ok self' \<and> maxHistoryInDays self' = maxHistoryInDays self)"
proof -
  let ?new = "[''v'' \<mapsto> val, ''d'' \<mapsto> timeInDays, ''m'' \<mapsto> timeMin]"
  let ?s1 = "self\<lparr>ValueQueue := ValueQueue self @ [?new],
                  MostRecentValue := py_round2 val,
                  MostRecentDay := timeInDays,
                  MostRecentMin := timeMin\<rparr>"
  let ?s2 = "if lowestValue ?s1 = - 1 \<or> val < lowestValue ?s1 then ?s1\<lparr>lowestValue := val\<rparr> else ?s1"
  from assms obtain e1 q where q: "ValueQueue self = e1 # q"
    by (cases "ValueQueue self") (auto simp: series_ok_def)
  have vq: "ValueQueue ?s2 = e1 # (q @ [?new])"
    by (simp add: q)
  have "\<forall>e \<in> set (q @ [?new]). e ''d'' \<noteq> None \<and> e ''h'' = None"
    using assms q by (auto simp: series_ok_def)
  then obtain e2 rest where q2: "ValueQueue ?s2 = e1 # e2 # rest"
    and e2: "e2 ''d'' \<noteq> None" "e2 ''h'' = None"
    unfolding vq by (cases "q @ [?new]") auto
  have e1: "e1 ''v'' \<noteq> None" using assms q by (simp add: series_ok_def)
  have old: "OldestDay ?s2 = OldestDay self" "OldestMin ?s2 = OldestMin self"
    "maxHistoryInDays ?s2 = maxHistoryInDays self"
    by simp_all
  have notfirst: "\<not> (OldestDay ?s2 = - 1 \<and> OldestMin ?s2 = - 1)"
    using assms by (simp add: series_ok_def)
  have unfold: "AddNewValue self val timeInDays timeMin =
        (case TrimQueue ?s2 timeInDays False of
           Inl err \<Rightarrow> Inl err
         | Inr (s3, fNeed) \<Rightarrow>
             (if fNeed
              then (case FindLowestValue (ValueQueue s3) (- 1) of
                      Inl err \<Rightarrow> Inl err
                    | Inr low \<Rightarrow> Inr (s3\<lparr>lowestValue := low\<rparr>))
              else Inr s3))"
    using notfirst unfolding AddNewValue_def Let_def by (simp only: if_False)
  show ?thesis
  proof (cases "timeInDays - OldestDay self > maxHistoryInDays self")
    case True
    then have "timeInDays - OldestDay ?s2 > maxHistoryInDays ?s2"
      using old by simp
    from TrimQueue_KeyError[OF this q2 e1 e2]
    show ?thesis using True unfolding unfold by simp
  next
    case False
    then have "\<not> timeInDays - OldestDay ?s2 > maxHistoryInDays ?s2"
      using old by simp
    from TrimQueue_no_trim[OF this]
    have "AddNewValue self val timeInDays timeMin = Inr ?s2"
      unfolding unfold by simp
    moreover have "series_ok ?s2"
      using assms q by (auto simp: series_ok_def)
    ultimately show ?thesis using False old by simp
  qed
qed

lemma AddNewValues_series_ok:
  "AddNewValues self obs = Inr self' \<Longrightarrow> series_ok self \<Longrightarrow>
   series_ok self' \<and> maxHistoryInDays self' = maxHistoryInDays self"
proof (induction obs arbitrary: self)
  case Nil
  then show ?case by simp
next
  case (Cons ob obs)
  obtain val d m where ob: "ob = (val, d, m)" by (cases ob)
  from Cons.prems(1) obtain s1 where s1: "AddNewValue self val d m = Inr s1"
    and rest: "AddNewValues s1 obs = Inr self'"
    by (auto simp: ob split: sum.splits)
  from AddNewValue_series_ok[OF Cons.prems(2), of d val m] s1
  have "series_ok s1" "maxHistoryInDays s1 = maxHistoryInDays self" by auto
  with Cons.IH[OF rest] show ?case by simp
qed

text \<open>
  Claim C9: on a CTimeSeries on which AddNewValue has been called at least once, a later
  call of AddNewValue whose day exceeds the day of the oldest retained entry by more than
  maxHistoryInDays raises KeyError: the pruning loop reads \<^verbatim>\<open>'h'\<close> from an entry created with
  \<^verbatim>\<open>'v'\<close>, \<^verbatim>\<open>'d'\<close> and \<^verbatim>\<open>'m'\<close> only. The first call is at a time of a record, which is not the
  pair (-1, -1) of the constructor: no day number of a record is negative. (The calls that
  returned never pruned, so the oldest retained entry is the first observation; a call that
  raised ended the run, as no caller handles the exception.)
\<close>

theorem pruning_call_raises_KeyError:
  assumes "AddNewValues (CTimeSeries_init maxHistory) ((val0, day0, min0) # obs) = Inr self"
    and "\<not> (day0 = - 1 \<and> min0 = - 1)"
    and "hd (ValueQueue self) ''d'' = Some oldestDay"
    and "timeInDays - oldestDay > maxHistory"
  shows "AddNewValue self val timeInDays timeMin = Inl KeyError"
proof -
  from assms(1) obtain s1 where s1: "AddNewValue (CTimeSeries_init maxHistory) val0 day0 min0 = Inr s1"
    and rest: "AddNewValues s1 obs = Inr self"
    by (auto split: sum.splits)
  from AddNewValue_first[OF s1 assms(2)] have "series_ok s1" "maxHistoryInDays s1 = maxHistory"
    by simp_all
  with AddNewValues_series_ok[OF rest] have ok: "series_ok self" and mh: "maxHistoryInDays self = maxHistory"
    by simp_all
  from ok assms(3) have "OldestDay self = oldestDay"
    by (simp add: series_ok_def)
  with assms(4) mh have "timeInDays - OldestDay self > maxHistoryInDays self"
    by simp
  with AddNewValue_series_ok[OF ok, of timeInDays val timeMin] show ?thesis
    by simp
qed

text \<open>One observation on day 100, then a call for day 110 with a history of 7 days.\<close>

theorem pruning_call_raises_KeyError_witness:
  "(110 :: real) - 100 > 7
   \<and> (\<exists>self. AddNewValues (CTimeSeries_init 7) [(1, 100, 0)] = Inr self
            \<and> hd (ValueQueue self) ''d'' = Some 100
            \<and> AddNewValue self (14 / 10) 110 0 = Inl KeyError)"
proof -
  obtain self where s: "AddNewValues (CTimeSeries_init 7) [(1, 100, 0)] = Inr self"
    and h: "hd (ValueQueue self) ''d'' = Some 100"
    by (simp add: AddNewValue_def CTimeSeries_init_def Let_def)
  have "AddNewValue self (14 / 10) 110 0 = Inl KeyError"
    using pruning_call_raises_KeyError[of 7 1 100 0 "[]" self 100 110 "14 / 10" 0] s h by simp
  with s h show ?thesis by auto
qed

text \<open>
  Claim C9 ends with a consequence: compiling a timeline that requests BaselineCr and holds
  valid creatinine values more than 7 days apart aborts with an exception. The record
  \<open>creatinine_nodes\<close>, with creatinine on days 100 and 110, compiled for the variables
  BaselineCr and Cr, does not abort: CompileTimelineImpl returns its timeline of two
  TimePoints, whatever the branches of the other calculated variables do. On this record
  the forward pass does not call AddNewValue.
\<close>

theorem compile_with_BaselineCr_does_not_abort:
  "\<forall>otherDerivedValues.
     map_sum id (\<lambda>self. map (\<lambda>e. (TimeDays e, data e ''Cr'')) (CompiledTimeline self))
       (CompileTimelineImpl g_LabValueInfo_rows otherDerivedValues baseline_reader creatinine_nodes)
     = Inr [(100, Some (Num 1)), (110, Some (Num (14 / 10)))]"
  by (simp add: CompileTimelineImpl_def baseline_reader_def creatinine_nodes_def
        g_LabValueInfo_rows_def InitialDataList_def ForwardDataNode_def
        ApplyActionAfterEachTimePeriod_def ProcessDataNodeForwardImpl_def StoreLabValue_def
        StoreLatest_def RecordTimeMilestonesOnForwardPass_def milestones_init_def
        CalculateAllDerivedValuesREVERSEPass_def ReverseBaselineCr_def
        ReverseBaselineGFR_def ReverseInAKI_def get_or_invalid_def as_number_def
        TDF_INVALID_VALUE_def TDF_SMALLEST_VALID_VALUE_def Let_def)

end
